theory Spec2Isabelle
  imports Complex_Main "HOL-Library.While_Combinator"
begin

section \<open>Python values and exceptions\<close>

text \<open>
  The program is \<^verbatim>\<open>app.py\<close>: four key-distribution engines (\<^verbatim>\<open>BB84Protocol\<close>,
  \<^verbatim>\<open>E91Protocol\<close>, \<^verbatim>\<open>BBM92Protocol\<close>, \<^verbatim>\<open>TeleportationQKD\<close>), the metric
  \<^verbatim>\<open>calculate_security_metrics\<close> of their base class and the route \<^verbatim>\<open>run_simulation\<close>.
  Python integers are \<open>int\<close>, key bits are the integers that \<^verbatim>\<open>int(...)\<close> returns, and the
  two exceptions the engines can raise are values of \<open>error\<close>.
\<close>

datatype error = ValueError | IndexError

text \<open>
  Python floats are read as the exact rationals they approximate: \<^verbatim>\<open>matches / total\<close> is
  the quotient in \<open>rat\<close>, and the literals \<^verbatim>\<open>0.05\<close>, \<^verbatim>\<open>0.15\<close>, ... are the fractions
  \<open>5/100\<close>, \<open>15/100\<close>, ... The rounding of the floats is not modelled. (An error rate
  computed from keys is a fraction with the compared length as denominator, so unless it
  is exactly 1/20 or 3/20 it is farther from these thresholds than any rounding error for
  keys of feasible length; at exactly 1/20 and 3/20 the floats of \<^verbatim>\<open>1.0 - 0.95\<close> and
  \<^verbatim>\<open>1.0 - 0.85\<close> lie just above the literals, and the comparisons come out as here.)
\<close>

section \<open>Security metrics\<close>

record metrics =
  agreement_rate :: rat
  qber :: rat
  is_secure :: bool
  security_level :: string

text \<open>The two threshold lines of \<^verbatim>\<open>calculate_security_metrics\<close> (lines 48 and 49).\<close>

definition security_thresholds :: "rat \<Rightarrow> bool \<times> string" where
  "security_thresholds q =
     (q < 15 / 100,
      if q < 5 / 100 then ''High'' else if q < 15 / 100 then ''Medium'' else ''Low'')"

text \<open>\<^verbatim>\<open>sum(1 for i, j in zip(alice_key[:total], bob_key[:total]) if i == j)\<close>\<close>

definition count_matches :: "int list \<Rightarrow> int list \<Rightarrow> nat \<Rightarrow> nat" where
  "count_matches alice_key bob_key tot =
     length (filter (\<lambda>(i, j). i = j) (zip (take tot alice_key) (take tot bob_key)))"

text \<open>
  \<^verbatim>\<open>calculate_security_metrics(self, alice_key, bob_key, eavesdropping=False)\<close>. The
  parameter \<^verbatim>\<open>eavesdropping\<close> is accepted and never read. \<^verbatim>\<open>not alice_key\<close> is true of
  the empty list only.
\<close>

definition calculate_security_metrics :: "int list \<Rightarrow> int list \<Rightarrow> bool \<Rightarrow> metrics" where
  "calculate_security_metrics alice_key bob_key eavesdropping =
     (if alice_key = [] \<or> bob_key = [] then
        \<lparr>agreement_rate = 0, qber = 1, is_secure = False, security_level = ''Low''\<rparr>
      else
        let tot = min (length alice_key) (length bob_key);
            matches = count_matches alice_key bob_key tot;
            agreement = of_nat matches / of_nat tot;
            q = 1 - agreement
        in \<lparr>agreement_rate = agreement, qber = q,
            is_secure = fst (security_thresholds q),
            security_level = snd (security_thresholds q)\<rparr>)"

section \<open>Built-in operations of Python\<close>

text \<open>
  \<^verbatim>\<open>int(bit)\<close> of a one-character string: the value of a decimal digit, \<^verbatim>\<open>ValueError\<close>
  for every other character. (\<open>char\<close> covers the code points below 256, none of which is
  a decimal digit other than \<^verbatim>\<open>0\<close> to \<^verbatim>\<open>9\<close>.)
\<close>

definition is_digit :: "char \<Rightarrow> bool" where
  "is_digit c = (48 \<le> (of_char c :: nat) \<and> (of_char c :: nat) \<le> 57)"

definition int_of_char :: "char \<Rightarrow> error + int" where
  "int_of_char c = (if is_digit c then Inr (int (of_char c) - 48) else Inl ValueError)"

text \<open>
  \<^verbatim>\<open>int(s)\<close> of a whole string, as far as the engines use it: on the memory string of a
  one-bit register. A non-empty string of digits is read in base ten; every other string
  raises. (Python also accepts a sign, surrounding blanks and underscores between digits;
  \<^verbatim>\<open>get_memory\<close> produces none of these.)
\<close>

definition py_int :: "string \<Rightarrow> error + int" where
  "py_int s =
     (if s \<noteq> [] \<and> list_all is_digit s
      then Inr (foldl (\<lambda>a c. 10 * a + (int (of_char c) - 48)) 0 s)
      else Inl ValueError)"

text \<open>\<^verbatim>\<open>[int(bit) for bit in custom_bits]\<close>: the first bad character raises.\<close>

fun int_list :: "string \<Rightarrow> error + int list" where
  "int_list [] = Inr []"
| "int_list (c # cs) =
     (case int_of_char c of
        Inl e \<Rightarrow> Inl e
      | Inr d \<Rightarrow> (case int_list cs of Inl e \<Rightarrow> Inl e | Inr ds \<Rightarrow> Inr (d # ds)))"

text \<open>\<^verbatim>\<open>xs[i]\<close>: negative indices count from the end, anything out of range raises.\<close>

definition py_index :: "'a list \<Rightarrow> int \<Rightarrow> error + 'a" where
  "py_index xs i =
     (if 0 \<le> i \<and> i < int (length xs) then Inr (xs ! nat i)
      else if - int (length xs) \<le> i \<and> i < 0 then Inr (xs ! nat (int (length xs) + i))
      else Inl IndexError)"

text \<open>\<^verbatim>\<open>xs[:k]\<close>: a negative bound drops that many elements from the end.\<close>

definition py_prefix :: "'a list \<Rightarrow> int \<Rightarrow> 'a list" where
  "py_prefix xs k = (if 0 \<le> k then take (nat k) xs else take (length xs - nat (- k)) xs)"

text \<open>
  \<^verbatim>\<open>if custom_bits:\<close> holds of a non-empty string; \<^verbatim>\<open>None\<close> (the default of the
  parameter) and the empty string are both false.
\<close>

definition truthy :: "string option \<Rightarrow> bool" where
  "truthy custom_bits = (case custom_bits of None \<Rightarrow> False | Some s \<Rightarrow> s \<noteq> [])"

section \<open>Random draws and effects\<close>

text \<open>
  The engines draw from the global generator of \<^verbatim>\<open>random\<close> and from the sampler of the
  backend. Both are one sequence of raw draws (integers): \<open>rnd i\<close> is the \<open>i\<close>-th draw and the position
  of the next draw is the state that every operation threads. An action takes the position
  and returns an exception, or a value and the new position.
\<close>

type_synonym rng = "nat \<Rightarrow> int"

type_synonym 'a act = "nat \<Rightarrow> error + 'a \<times> nat"

definition ret :: "'a \<Rightarrow> 'a act" where
  "ret x = (\<lambda>p. Inr (x, p))"

definition lift :: "error + 'a \<Rightarrow> 'a act" where
  "lift r = (\<lambda>p. case r of Inl e \<Rightarrow> Inl e | Inr x \<Rightarrow> Inr (x, p))"

definition bind :: "'a act \<Rightarrow> ('a \<Rightarrow> 'b act) \<Rightarrow> 'b act" where
  "bind m f = (\<lambda>p. case m p of Inl e \<Rightarrow> Inl e | Inr (x, p') \<Rightarrow> f x p')"

definition draw :: "rng \<Rightarrow> int act" where
  "draw rnd = (\<lambda>p. Inr (rnd p, Suc p))"

text \<open>\<^verbatim>\<open>random.randint(a, b)\<close>, an integer between \<open>a\<close> and \<open>b\<close> inclusive.\<close>

definition randint :: "rng \<Rightarrow> int \<Rightarrow> int \<Rightarrow> int act" where
  "randint rnd a b = bind (draw rnd) (\<lambda>c. ret (a + c mod (b - a + 1)))"

text \<open>\<^verbatim>\<open>random.random()\<close>, a multiple of \<open>2\<^sup>-\<^sup>5\<^sup>3\<close> in the interval from 0 up to 1.\<close>

definition random :: "rng \<Rightarrow> rat act" where
  "random rnd = bind (draw rnd) (\<lambda>c. ret (of_int (c mod 2 ^ 53) / 2 ^ 53))"

text \<open>\<^verbatim>\<open>random.choice(xs)\<close>; it raises \<^verbatim>\<open>IndexError\<close> on an empty list.\<close>

definition choice :: "rng \<Rightarrow> 'a list \<Rightarrow> 'a act" where
  "choice rnd xs = bind (draw rnd) (\<lambda>c. lift (py_index xs (c mod int (length xs))))"

text \<open>
  \<^verbatim>\<open>include_eavesdropping and random.random() < p\<close>: no draw is made when the flag is
  off.
\<close>

definition flag_and_chance :: "rng \<Rightarrow> bool \<Rightarrow> rat \<Rightarrow> bool act" where
  "flag_and_chance rnd flag p = (if flag then bind (random rnd) (\<lambda>u. ret (u < p)) else ret False)"

section \<open>Quantum circuits and the backend\<close>

text \<open>
  A \<^verbatim>\<open>QuantumCircuit\<close> is the data the engines build: the numbers of qubits and of
  classical bits and the instructions appended so far. The backend is a parameter of every
  engine: \<open>backend qc c\<close> is the memory string of the single shot
  \<^verbatim>\<open>backend.run(qc, shots=1, memory=True).result().get_memory()[0]\<close> when the sampler's
  raw draw is \<open>c\<close>.
\<close>

datatype instruction =
  XGate nat | HGate nat | ZGate nat | SdgGate nat | CXGate nat nat
  | Measure nat nat | MeasureAll

record circuit =
  num_qubits :: nat
  num_clbits :: nat
  data :: "instruction list"

definition QuantumCircuit :: "nat \<Rightarrow> nat \<Rightarrow> circuit" where
  "QuantumCircuit n m = \<lparr>num_qubits = n, num_clbits = m, data = []\<rparr>"

definition append_instruction :: "circuit \<Rightarrow> instruction \<Rightarrow> circuit" where
  "append_instruction qc g = qc\<lparr>data := data qc @ [g]\<rparr>"

definition qc_x :: "circuit \<Rightarrow> nat \<Rightarrow> circuit" where
  "qc_x qc q = append_instruction qc (XGate q)"

definition qc_h :: "circuit \<Rightarrow> nat \<Rightarrow> circuit" where
  "qc_h qc q = append_instruction qc (HGate q)"

definition qc_z :: "circuit \<Rightarrow> nat \<Rightarrow> circuit" where
  "qc_z qc q = append_instruction qc (ZGate q)"

definition qc_sdg :: "circuit \<Rightarrow> nat \<Rightarrow> circuit" where
  "qc_sdg qc q = append_instruction qc (SdgGate q)"

definition qc_cx :: "circuit \<Rightarrow> nat \<Rightarrow> nat \<Rightarrow> circuit" where
  "qc_cx qc c t = append_instruction qc (CXGate c t)"

definition qc_measure :: "circuit \<Rightarrow> nat \<Rightarrow> nat \<Rightarrow> circuit" where
  "qc_measure qc q c = append_instruction qc (Measure q c)"

definition qc_measure_all :: "circuit \<Rightarrow> circuit" where
  "qc_measure_all qc = append_instruction qc MeasureAll"

type_synonym backend = "circuit \<Rightarrow> int \<Rightarrow> string"

definition run :: "backend \<Rightarrow> rng \<Rightarrow> circuit \<Rightarrow> string act" where
  "run backend rnd qc = bind (draw rnd) (\<lambda>c. ret (backend qc c))"

section \<open>Loops and the local variables of an engine\<close>

text \<open>
  The keys, as the lists the engines build and as entries of the dictionary they return.
\<close>

record key_pair =
  alice_key :: "int list"
  bob_key :: "int list"

text \<open>
  The variables a sifting loop reads and assigns, with the position of the next draw. The
  random mode has no \<^verbatim>\<open>bit_index\<close> and leaves the field alone; the custom-bits mode
  never assigns \<^verbatim>\<open>alice_key\<close> inside the loop.
\<close>

record vars = key_pair +
  bit_index :: int
  pos :: nat

text \<open>The returned dictionary.\<close>

record key_data = key_pair +
  protocol :: string
  eavesdropping :: bool

text \<open>
  One iteration runs an action from the current position and stores the position it ends
  at.
\<close>

definition iteration :: "(vars \<Rightarrow> vars act) \<Rightarrow> vars \<Rightarrow> error + vars" where
  "iteration m v =
     (case m v (pos v) of Inl e \<Rightarrow> Inl e | Inr (v', p') \<Rightarrow> Inr (v'\<lparr>pos := p'\<rparr>))"

text \<open>
  \<^verbatim>\<open>while cond: body\<close>. The loop stops at the first exception; a loop that never leaves
  is \<open>None\<close>.
\<close>

definition while_loop :: "('s \<Rightarrow> bool) \<Rightarrow> ('s \<Rightarrow> error + 's) \<Rightarrow> 's \<Rightarrow> (error + 's) option" where
  "while_loop cond body s =
     while_option (\<lambda>r. case r of Inl _ \<Rightarrow> False | Inr v \<Rightarrow> cond v)
                  (\<lambda>r. case r of Inl e \<Rightarrow> Inl e | Inr v \<Rightarrow> body v)
                  (Inr s)"

text \<open>\<^verbatim>\<open>for i in range(n): body\<close>, over the list of the indices.\<close>

fun for_each :: "'i list \<Rightarrow> ('i \<Rightarrow> 's \<Rightarrow> error + 's) \<Rightarrow> 's \<Rightarrow> error + 's" where
  "for_each [] body s = Inr s"
| "for_each (i # js) body s =
     (case body i s of Inl e \<Rightarrow> Inl e | Inr s' \<Rightarrow> for_each js body s')"

definition py_range :: "int \<Rightarrow> int list" where
  "py_range n = map int [0..<nat n]"

text \<open>The \<^verbatim>\<open>return\<close> statement of every engine.\<close>

definition returned :: "string \<Rightarrow> bool \<Rightarrow> vars \<Rightarrow> key_data \<times> nat" where
  "returned name include_eavesdropping v =
     (\<lparr>alice_key = alice_key v, bob_key = bob_key v, protocol = name,
       eavesdropping = include_eavesdropping\<rparr>, pos v)"

definition initial :: "int list \<Rightarrow> nat \<Rightarrow> vars" where
  "initial a p = \<lparr>alice_key = a, bob_key = [], bit_index = 0, pos = p\<rparr>"

section \<open>BB84\<close>

text \<open>
  Both branches of \<^verbatim>\<open>BB84Protocol.generate_key\<close> contain the same text between the
  preparation of the qubit and Bob's measurement; it is written once here. A qubit is
  prepared by \<^verbatim>\<open>qc.x(0)\<close> for the bit 1 and \<^verbatim>\<open>qc.h(0)\<close> for the diagonal basis, and
  measured after \<^verbatim>\<open>qc.h(0)\<close> for the diagonal basis.
\<close>

definition BB84_prepare :: "int \<Rightarrow> int \<Rightarrow> circuit" where
  "BB84_prepare prepared_bit basis =
     (let qc = QuantumCircuit 1 1;
          qc = (if prepared_bit = 1 then qc_x qc 0 else qc);
          qc = (if basis = 1 then qc_h qc 0 else qc)
      in qc)"

definition BB84_measure :: "int \<Rightarrow> circuit \<Rightarrow> circuit" where
  "BB84_measure basis qc =
     (let qc = (if basis = 1 then qc_h qc 0 else qc) in qc_measure qc 0 0)"

definition BB84_transmit :: "backend \<Rightarrow> rng \<Rightarrow> bool \<Rightarrow> int \<Rightarrow> int \<Rightarrow> int \<Rightarrow> int act" where
  "BB84_transmit backend rnd include_eavesdropping alice_bit alice_basis bob_basis =
     (let qc = BB84_prepare alice_bit alice_basis in
      bind (flag_and_chance rnd include_eavesdropping (3 / 10)) (\<lambda>intercepted.
      bind (if intercepted then
              bind (randint rnd 0 1) (\<lambda>eve_basis.
              bind (run backend rnd (BB84_measure eve_basis qc)) (\<lambda>memory.
              bind (lift (py_int memory)) (\<lambda>eve_result.
              ret (BB84_prepare eve_result eve_basis))))
            else ret qc) (\<lambda>qc.
      bind (run backend rnd (BB84_measure bob_basis qc)) (\<lambda>memory.
      lift (py_int memory)))))"

text \<open>The two basis draws of a round: 0 is the rectilinear basis, 1 the diagonal one.\<close>

definition BB84_bases :: "rng \<Rightarrow> (int \<times> int) act" where
  "BB84_bases rnd =
     bind (randint rnd 0 1) (\<lambda>alice_basis.
     bind (randint rnd 0 1) (\<lambda>bob_basis.
     ret (alice_basis, bob_basis)))"

text \<open>The body of the loop at lines 101 to 145 (custom bits).\<close>

definition BB84_round_custom :: "backend \<Rightarrow> rng \<Rightarrow> bool \<Rightarrow> vars \<Rightarrow> error + vars" where
  "BB84_round_custom backend rnd include_eavesdropping =
     iteration (\<lambda>v.
       bind (BB84_bases rnd) (\<lambda>(alice_basis, bob_basis).
       bind (lift (py_index (alice_key v) (bit_index v))) (\<lambda>alice_bit.
       bind (BB84_transmit backend rnd include_eavesdropping alice_bit alice_basis bob_basis)
         (\<lambda>bob_result.
       ret (if alice_basis = bob_basis
            then v\<lparr>bob_key := bob_key v @ [bob_result], bit_index := bit_index v + 1\<rparr>
            else v)))))"

text \<open>The body of the loop at lines 152 to 196 (random bits).\<close>

definition BB84_round_random :: "backend \<Rightarrow> rng \<Rightarrow> bool \<Rightarrow> vars \<Rightarrow> error + vars" where
  "BB84_round_random backend rnd include_eavesdropping =
     iteration (\<lambda>v.
       bind (randint rnd 0 1) (\<lambda>alice_bit.
       bind (BB84_bases rnd) (\<lambda>(alice_basis, bob_basis).
       bind (BB84_transmit backend rnd include_eavesdropping alice_bit alice_basis bob_basis)
         (\<lambda>bob_result.
       ret (if alice_basis = bob_basis
            then v\<lparr>alice_key := alice_key v @ [alice_bit],
                   bob_key := bob_key v @ [bob_result]\<rparr>
            else v)))))"

text \<open>
  The custom-bits branch shared by the three sifting engines, which differ in the body of
  the loop only: parse, check the length, take the prefix as Alice's key, then sift until
  Bob's key is long enough.
\<close>

definition sift_custom ::
  "(vars \<Rightarrow> error + vars) \<Rightarrow> int \<Rightarrow> string \<Rightarrow> nat \<Rightarrow> (error + vars) option" where
  "sift_custom body key_length custom_bits p =
     (case int_list custom_bits of
        Inl e \<Rightarrow> Some (Inl e)
      | Inr custom_bit_list \<Rightarrow>
          if int (length custom_bit_list) < key_length then Some (Inl ValueError)
          else while_loop (\<lambda>v. int (length (bob_key v)) < key_length) body
                 (initial (py_prefix custom_bit_list key_length) p))"

text \<open>The random branch of the three sifting engines.\<close>

definition sift_random :: "(vars \<Rightarrow> error + vars) \<Rightarrow> int \<Rightarrow> nat \<Rightarrow> (error + vars) option" where
  "sift_random body key_length p =
     while_loop (\<lambda>v. int (length (alice_key v)) < key_length) body (initial [] p)"

definition BB84_generate_key ::
  "backend \<Rightarrow> rng \<Rightarrow> int \<Rightarrow> bool \<Rightarrow> string option \<Rightarrow> nat \<Rightarrow> (error + key_data \<times> nat) option" where
  "BB84_generate_key backend rnd key_length include_eavesdropping custom_bits p =
     map_option (map_sum id (returned ''BB84'' include_eavesdropping))
       (if truthy custom_bits
        then sift_custom (BB84_round_custom backend rnd include_eavesdropping)
               key_length (the custom_bits) p
        else sift_random (BB84_round_random backend rnd include_eavesdropping) key_length p)"

section \<open>E91\<close>

text \<open>
  The text both branches of \<^verbatim>\<open>E91Protocol.generate_key\<close> share, from the creation of
  the pair to the measurement: the two basis draws (0, 1 or 2), then the circuit, Eve and
  the memory string of the final measurement.
\<close>

definition E91_rotate :: "int \<Rightarrow> nat \<Rightarrow> circuit \<Rightarrow> circuit" where
  "E91_rotate basis q qc =
     (if basis = 1 then qc_h qc q
      else if basis = 2 then qc_h (qc_sdg qc q) q
      else qc)"

definition E91_pair :: "int \<Rightarrow> int \<Rightarrow> circuit" where
  "E91_pair alice_basis bob_basis =
     (let qc = QuantumCircuit 2 2;
          qc = qc_h qc 0;
          qc = qc_cx qc 0 1;
          qc = E91_rotate alice_basis 0 qc;
          qc = E91_rotate bob_basis 1 qc
      in qc)"

definition measure_both :: "circuit \<Rightarrow> circuit" where
  "measure_both qc = qc_measure (qc_measure qc 0 0) 1 1"

text \<open>
  Eve's fresh circuit: \<^verbatim>\<open>x\<close> on qubit 0 for \<^verbatim>\<open>eve_results[1] == '1'\<close> and on qubit 1
  for \<^verbatim>\<open>eve_results[0] == '1'\<close>.
\<close>

definition resend :: "string \<Rightarrow> circuit act" where
  "resend eve_results =
     (let qc = QuantumCircuit 2 2 in
      bind (lift (py_index eve_results 1)) (\<lambda>r1.
      let qc = (if r1 = CHR ''1'' then qc_x qc 0 else qc) in
      bind (lift (py_index eve_results 0)) (\<lambda>r0.
      let qc = (if r0 = CHR ''1'' then qc_x qc 1 else qc) in
      ret qc)))"

definition E91_bases :: "rng \<Rightarrow> (int \<times> int) act" where
  "E91_bases rnd =
     bind (randint rnd 0 2) (\<lambda>alice_basis.
     bind (randint rnd 0 2) (\<lambda>bob_basis.
     ret (alice_basis, bob_basis)))"

definition E91_exchange :: "backend \<Rightarrow> rng \<Rightarrow> bool \<Rightarrow> int \<Rightarrow> int \<Rightarrow> string act" where
  "E91_exchange backend rnd include_eavesdropping alice_basis bob_basis =
     (let qc = E91_pair alice_basis bob_basis in
     bind (flag_and_chance rnd include_eavesdropping (25 / 100)) (\<lambda>intercepted.
     bind (if intercepted then
             bind (run backend rnd (qc_measure_all qc)) (\<lambda>eve_results.
             bind (resend eve_results) (\<lambda>qc.
             let qc = qc_h qc 0; qc = qc_cx qc 0 1 in
             bind (random rnd) (\<lambda>u.
             if u < 1 / 10 then bind (randint rnd 0 1) (\<lambda>q. ret (qc_x qc (nat q)))
             else ret qc)))
           else ret qc) (\<lambda>qc.
     run backend rnd (measure_both qc))))"

text \<open>The body of the loop at lines 251 to 295 (custom bits).\<close>

definition E91_round_custom :: "backend \<Rightarrow> rng \<Rightarrow> bool \<Rightarrow> vars \<Rightarrow> error + vars" where
  "E91_round_custom backend rnd include_eavesdropping =
     iteration (\<lambda>v.
       bind (E91_bases rnd) (\<lambda>(alice_basis, bob_basis).
       bind (E91_exchange backend rnd include_eavesdropping alice_basis bob_basis)
         (\<lambda>measurements.
       if alice_basis = bob_basis then
         bind (lift (py_index measurements 0)) (\<lambda>m0.
         bind (lift (int_of_char m0)) (\<lambda>bob_bit.
         let bob_bit = (if alice_basis = 2 then 1 - bob_bit else bob_bit) in
         ret (v\<lparr>bob_key := bob_key v @ [bob_bit], bit_index := bit_index v + 1\<rparr>)))
       else ret v)))"

text \<open>The body of the loop at lines 300 to 345 (random bits).\<close>

definition E91_round_random :: "backend \<Rightarrow> rng \<Rightarrow> bool \<Rightarrow> vars \<Rightarrow> error + vars" where
  "E91_round_random backend rnd include_eavesdropping =
     iteration (\<lambda>v.
       bind (E91_bases rnd) (\<lambda>(alice_basis, bob_basis).
       bind (E91_exchange backend rnd include_eavesdropping alice_basis bob_basis)
         (\<lambda>measurements.
       if alice_basis = bob_basis then
         bind (lift (py_index measurements 1)) (\<lambda>m1.
         bind (lift (int_of_char m1)) (\<lambda>alice_bit.
         bind (lift (py_index measurements 0)) (\<lambda>m0.
         bind (lift (int_of_char m0)) (\<lambda>bob_bit.
         let bob_bit = (if alice_basis = 2 then 1 - bob_bit else bob_bit) in
         ret (v\<lparr>alice_key := alice_key v @ [alice_bit],
                bob_key := bob_key v @ [bob_bit]\<rparr>)))))
       else ret v)))"

definition E91_generate_key ::
  "backend \<Rightarrow> rng \<Rightarrow> int \<Rightarrow> bool \<Rightarrow> string option \<Rightarrow> nat \<Rightarrow> (error + key_data \<times> nat) option" where
  "E91_generate_key backend rnd key_length include_eavesdropping custom_bits p =
     map_option (map_sum id (returned ''E91'' include_eavesdropping))
       (if truthy custom_bits
        then sift_custom (E91_round_custom backend rnd include_eavesdropping)
               key_length (the custom_bits) p
        else sift_random (E91_round_random backend rnd include_eavesdropping) key_length p)"

section \<open>BBM92\<close>

definition BBM92_rotate :: "string \<Rightarrow> string \<Rightarrow> circuit \<Rightarrow> circuit" where
  "BBM92_rotate alice_basis bob_basis qc =
     (let qc = (if alice_basis = ''diagonal'' then qc_h qc 0 else qc);
          qc = (if bob_basis = ''diagonal'' then qc_h qc 1 else qc)
      in qc)"

definition BBM92_pair :: "string \<Rightarrow> string \<Rightarrow> circuit" where
  "BBM92_pair alice_basis bob_basis =
     (let qc = QuantumCircuit 2 2;
          qc = qc_h qc 0;
          qc = qc_cx qc 0 1
      in BBM92_rotate alice_basis bob_basis qc)"

definition BBM92_bases :: "rng \<Rightarrow> (string \<times> string) act" where
  "BBM92_bases rnd =
     bind (choice rnd [''rectilinear'', ''diagonal'']) (\<lambda>alice_basis.
     bind (choice rnd [''rectilinear'', ''diagonal'']) (\<lambda>bob_basis.
     ret (alice_basis, bob_basis)))"

definition BBM92_exchange ::
  "backend \<Rightarrow> rng \<Rightarrow> bool \<Rightarrow> string \<Rightarrow> string \<Rightarrow> string act" where
  "BBM92_exchange backend rnd include_eavesdropping alice_basis bob_basis =
     (let qc = BBM92_pair alice_basis bob_basis in
     bind (flag_and_chance rnd include_eavesdropping (3 / 10)) (\<lambda>intercepted.
     bind (if intercepted then
             bind (run backend rnd (qc_measure_all qc)) (\<lambda>eve_results.
             bind (resend eve_results) (\<lambda>qc.
             ret (BBM92_rotate alice_basis bob_basis qc)))
           else ret qc) (\<lambda>qc.
     run backend rnd (measure_both qc))))"

text \<open>The body of the loop at lines 379 to 406 (custom bits).\<close>

definition BBM92_round_custom :: "backend \<Rightarrow> rng \<Rightarrow> bool \<Rightarrow> vars \<Rightarrow> error + vars" where
  "BBM92_round_custom backend rnd include_eavesdropping =
     iteration (\<lambda>v.
       bind (BBM92_bases rnd) (\<lambda>(alice_basis, bob_basis).
       bind (BBM92_exchange backend rnd include_eavesdropping alice_basis bob_basis)
         (\<lambda>measurements.
       if alice_basis = bob_basis then
         bind (lift (py_index measurements 0)) (\<lambda>m0.
         bind (lift (int_of_char m0)) (\<lambda>bob_bit.
         ret (v\<lparr>bob_key := bob_key v @ [bob_bit], bit_index := bit_index v + 1\<rparr>)))
       else ret v)))"

text \<open>The body of the loop at lines 411 to 438 (random bits).\<close>

definition BBM92_round_random :: "backend \<Rightarrow> rng \<Rightarrow> bool \<Rightarrow> vars \<Rightarrow> error + vars" where
  "BBM92_round_random backend rnd include_eavesdropping =
     iteration (\<lambda>v.
       bind (BBM92_bases rnd) (\<lambda>(alice_basis, bob_basis).
       bind (BBM92_exchange backend rnd include_eavesdropping alice_basis bob_basis)
         (\<lambda>measurements.
       if alice_basis = bob_basis then
         bind (lift (py_index measurements 1)) (\<lambda>m1.
         bind (lift (int_of_char m1)) (\<lambda>alice_bit.
         bind (lift (py_index measurements 0)) (\<lambda>m0.
         bind (lift (int_of_char m0)) (\<lambda>bob_bit.
         ret (v\<lparr>alice_key := alice_key v @ [alice_bit],
                bob_key := bob_key v @ [bob_bit]\<rparr>)))))
       else ret v)))"

definition BBM92_generate_key ::
  "backend \<Rightarrow> rng \<Rightarrow> int \<Rightarrow> bool \<Rightarrow> string option \<Rightarrow> nat \<Rightarrow> (error + key_data \<times> nat) option" where
  "BBM92_generate_key backend rnd key_length include_eavesdropping custom_bits p =
     map_option (map_sum id (returned ''BBM92'' include_eavesdropping))
       (if truthy custom_bits
        then sift_custom (BBM92_round_custom backend rnd include_eavesdropping)
               key_length (the custom_bits) p
        else sift_random (BBM92_round_random backend rnd include_eavesdropping) key_length p)"

section \<open>Teleportation\<close>

text \<open>
  The text both branches of \<^verbatim>\<open>TeleportationQKD.generate_key\<close> share, from the
  preparation of the secret bit to Bob's bit. Bob's circuit is a new one-qubit circuit;
  \<^verbatim>\<open>alice_measurements\<close> is the memory string of the three-bit register.
\<close>

definition teleport_circuit :: "int \<Rightarrow> circuit" where
  "teleport_circuit secret_bit =
     (let qc = QuantumCircuit 3 3;
          qc = (if secret_bit = 1 then qc_x qc 0 else qc);
          qc = qc_h qc 1;
          qc = qc_cx qc 1 2;
          qc = qc_cx qc 0 1;
          qc = qc_h qc 0
      in qc)"

definition bob_circuit :: "string \<Rightarrow> circuit act" where
  "bob_circuit alice_measurements =
     (let bob_qc = QuantumCircuit 1 1 in
      bind (lift (py_index alice_measurements 1)) (\<lambda>a1.
      let bob_qc = (if a1 = CHR ''1'' then qc_x bob_qc 0 else bob_qc) in
      bind (lift (py_index alice_measurements 0)) (\<lambda>a0.
      let bob_qc = (if a0 = CHR ''1'' then qc_z bob_qc 0 else bob_qc) in
      ret (qc_measure bob_qc 0 0))))"

definition teleport :: "backend \<Rightarrow> rng \<Rightarrow> bool \<Rightarrow> int \<Rightarrow> int act" where
  "teleport backend rnd include_eavesdropping secret_bit =
     (let qc = teleport_circuit secret_bit in
      bind (flag_and_chance rnd include_eavesdropping (2 / 10)) (\<lambda>attempt.
      bind (if attempt then
              bind (random rnd) (\<lambda>u.
              if u < 3 / 10 then bind (randint rnd 0 2) (\<lambda>q. ret (qc_x qc (nat q)))
              else ret qc)
            else ret qc) (\<lambda>qc.
      let qc = qc_measure (qc_measure qc 0 0) 1 1 in
      bind (run backend rnd qc) (\<lambda>alice_measurements.
      bind (bob_circuit alice_measurements) (\<lambda>bob_qc.
      bind (run backend rnd bob_qc) (\<lambda>memory.
      lift (py_int memory)))))))"

text \<open>The body of the loop at lines 472 to 500 (custom bits).\<close>

definition Teleportation_round_custom ::
  "backend \<Rightarrow> rng \<Rightarrow> bool \<Rightarrow> int \<Rightarrow> vars \<Rightarrow> error + vars" where
  "Teleportation_round_custom backend rnd include_eavesdropping i =
     iteration (\<lambda>v.
       bind (lift (py_index (alice_key v) i)) (\<lambda>secret_bit.
       bind (teleport backend rnd include_eavesdropping secret_bit) (\<lambda>bob_bit.
       ret (v\<lparr>bob_key := bob_key v @ [bob_bit]\<rparr>))))"

text \<open>The body of the loop at lines 505 to 534 (random bits).\<close>

definition Teleportation_round_random ::
  "backend \<Rightarrow> rng \<Rightarrow> bool \<Rightarrow> int \<Rightarrow> vars \<Rightarrow> error + vars" where
  "Teleportation_round_random backend rnd include_eavesdropping i =
     iteration (\<lambda>v.
       bind (randint rnd 0 1) (\<lambda>secret_bit.
       bind (teleport backend rnd include_eavesdropping secret_bit) (\<lambda>bob_bit.
       ret (v\<lparr>alice_key := alice_key v @ [secret_bit], bob_key := bob_key v @ [bob_bit]\<rparr>))))"

definition Teleportation_custom ::
  "backend \<Rightarrow> rng \<Rightarrow> int \<Rightarrow> bool \<Rightarrow> string \<Rightarrow> nat \<Rightarrow> error + vars" where
  "Teleportation_custom backend rnd key_length include_eavesdropping custom_bits p =
     (case int_list custom_bits of
        Inl e \<Rightarrow> Inl e
      | Inr custom_bit_list \<Rightarrow>
          if int (length custom_bit_list) < key_length then Inl ValueError
          else for_each (py_range key_length)
                 (Teleportation_round_custom backend rnd include_eavesdropping)
                 (initial (py_prefix custom_bit_list key_length) p))"

definition Teleportation_generate_key ::
  "backend \<Rightarrow> rng \<Rightarrow> int \<Rightarrow> bool \<Rightarrow> string option \<Rightarrow> nat \<Rightarrow> (error + key_data \<times> nat) option" where
  "Teleportation_generate_key backend rnd key_length include_eavesdropping custom_bits p =
     Some (map_sum id (returned ''Teleportation QKD'' include_eavesdropping)
       (if truthy custom_bits
        then Teleportation_custom backend rnd key_length include_eavesdropping
               (the custom_bits) p
        else for_each (py_range key_length)
               (Teleportation_round_random backend rnd include_eavesdropping)
               (initial [] p)))"

section \<open>The protocol table and the route\<close>

datatype protocol_class = BB84Protocol | E91Protocol | BBM92Protocol | TeleportationQKD

text \<open>The method \<^verbatim>\<open>generate_key\<close>, dispatched on the class of the instance.\<close>

definition generate_key ::
  "protocol_class \<Rightarrow> backend \<Rightarrow> rng \<Rightarrow> int \<Rightarrow> bool \<Rightarrow> string option \<Rightarrow> nat
     \<Rightarrow> (error + key_data \<times> nat) option" where
  "generate_key proto =
     (case proto of
        BB84Protocol \<Rightarrow> BB84_generate_key
      | E91Protocol \<Rightarrow> E91_generate_key
      | BBM92Protocol \<Rightarrow> BBM92_generate_key
      | TeleportationQKD \<Rightarrow> Teleportation_generate_key)"

text \<open>The dictionary \<^verbatim>\<open>protocols\<close>.\<close>

definition protocols :: "string \<rightharpoonup> protocol_class" where
  "protocols =
     [''bb84'' \<mapsto> BB84Protocol, ''e91'' \<mapsto> E91Protocol, ''bbm92'' \<mapsto> BBM92Protocol,
      ''teleportation'' \<mapsto> TeleportationQKD]"

text \<open>
  The responses of \<^verbatim>\<open>run_simulation\<close>. An error response carries its status code and
  one of the four messages: \<^verbatim>\<open>'Invalid protocol'\<close>,
  \<^verbatim>\<open>'Custom bits must contain only 0s and 1s'\<close>,
  \<^verbatim>\<open>'Custom bits must be at least {key_length} characters long'\<close>, or the text of the
  exception an engine raised. A result carries the returned keys, the metrics (whose rates
  the route formats with three decimals), the length of Alice's key and the status line.
\<close>

datatype message =
  Invalid_protocol | Only_0s_and_1s | At_least_characters int | Exception_text error

record results =
  key :: key_data
  metric :: metrics
  result_key_length :: nat
  status :: string

datatype response = Error_response message nat | Results_response results

text \<open>
  \<^verbatim>\<open>all(bit in '01' for bit in custom_bits)\<close>: every character is \<^verbatim>\<open>0\<close> or \<^verbatim>\<open>1\<close>.
\<close>

definition all_in_01 :: "string \<Rightarrow> bool" where
  "all_in_01 custom_bits = list_all (\<lambda>bit. bit \<in> set ''01'') custom_bits"

text \<open>The part of the route after key generation: metrics and the response.\<close>

definition respond :: "bool \<Rightarrow> error + key_data \<times> nat \<Rightarrow> response" where
  "respond include_eavesdropping r =
     (case r of
        Inl e \<Rightarrow> Error_response (Exception_text e) 500
      | Inr (key_data, p) \<Rightarrow>
          let metrics = calculate_security_metrics (alice_key key_data) (bob_key key_data)
                          include_eavesdropping
          in Results_response
               \<lparr>key = key_data, metric = metrics,
                result_key_length = length (alice_key key_data),
                status = (if is_secure metrics then ''Secure communication possible''
                          else ''Security compromised - abort key exchange'')\<rparr>)"

text \<open>
  \<^verbatim>\<open>run_simulation\<close>, from the fields of the request: \<^verbatim>\<open>protocol\<close>,
  \<^verbatim>\<open>key_length\<close>, \<^verbatim>\<open>eavesdropping\<close>, \<^verbatim>\<open>use_custom_bits\<close> and \<^verbatim>\<open>custom_bits\<close>.
\<close>

definition run_simulation ::
  "backend \<Rightarrow> rng \<Rightarrow> string \<Rightarrow> int \<Rightarrow> bool \<Rightarrow> bool \<Rightarrow> string \<Rightarrow> nat \<Rightarrow> response option" where
  "run_simulation backend rnd protocol_name key_length include_eavesdropping use_custom_bits
       custom_bits p =
     (case protocols protocol_name of
        None \<Rightarrow> Some (Error_response Invalid_protocol 400)
      | Some qkd_protocol \<Rightarrow>
          if use_custom_bits \<and> custom_bits \<noteq> [] then
            if \<not> all_in_01 custom_bits then Some (Error_response Only_0s_and_1s 400)
            else if int (length custom_bits) < key_length
              then Some (Error_response (At_least_characters key_length) 400)
            else map_option (respond include_eavesdropping)
                   (generate_key qkd_protocol backend rnd key_length include_eavesdropping
                      (Some custom_bits) p)
          else map_option (respond include_eavesdropping)
                 (generate_key qkd_protocol backend rnd key_length include_eavesdropping
                    None p))"

section \<open>A backend that follows the circuit\<close>

text \<open>
  The simulator of Qiskit is not part of the program. This section gives the standard
  meaning of the seven instructions so that the engines can be run on concrete draws: a
  state vector over the basis states \<open>0 .. 2\<^sup>n - 1\<close> (qubit \<open>q\<close> is bit \<open>q\<close> of the index,
  as in Qiskit), with amplitudes kept exact as Gaussian integers \<open>(re, im)\<close>. The common
  factor \<open>1/\<surd>2\<close> of every Hadamard gate is dropped: it changes no outcome from possible
  to impossible, and only which outcomes are possible is recorded here, not how likely
  they are.
\<close>

type_synonym amp = "int \<times> int"

definition amp_add :: "amp \<Rightarrow> amp \<Rightarrow> amp" where
  "amp_add a b = (fst a + fst b, snd a + snd b)"

definition amp_neg :: "amp \<Rightarrow> amp" where
  "amp_neg a = (- fst a, - snd a)"

text \<open>Multiplication by \<open>-i\<close>, the phase of \<^verbatim>\<open>sdg\<close>.\<close>

definition amp_times_minus_i :: "amp \<Rightarrow> amp" where
  "amp_times_minus_i a = (snd a, - fst a)"

definition qubit_is_1 :: "nat \<Rightarrow> nat \<Rightarrow> bool" where
  "qubit_is_1 q i = odd (i div 2 ^ q)"

definition flip_qubit :: "nat \<Rightarrow> nat \<Rightarrow> nat" where
  "flip_qubit q i = (if qubit_is_1 q i then i - 2 ^ q else i + 2 ^ q)"

fun apply_gate :: "instruction \<Rightarrow> amp list \<Rightarrow> amp list" where
  "apply_gate (XGate q) v = map (\<lambda>i. v ! flip_qubit q i) [0..<length v]"
| "apply_gate (HGate q) v =
     map (\<lambda>i. if qubit_is_1 q i then amp_add (v ! flip_qubit q i) (amp_neg (v ! i))
               else amp_add (v ! i) (v ! flip_qubit q i)) [0..<length v]"
| "apply_gate (ZGate q) v =
     map (\<lambda>i. if qubit_is_1 q i then amp_neg (v ! i) else v ! i) [0..<length v]"
| "apply_gate (SdgGate q) v =
     map (\<lambda>i. if qubit_is_1 q i then amp_times_minus_i (v ! i) else v ! i) [0..<length v]"
| "apply_gate (CXGate c t) v =
     map (\<lambda>i. if qubit_is_1 c i then v ! flip_qubit t i else v ! i) [0..<length v]"
| "apply_gate _ v = v"

text \<open>
  A branch of the shot: the state vector and the classical registers in the order of their
  creation (the register of the circuit first, the register \<^verbatim>\<open>meas\<close> that
  \<^verbatim>\<open>measure_all\<close> adds after it).
\<close>

type_synonym branch = "amp list \<times> bool list list"

fun set_clbit :: "nat \<Rightarrow> bool \<Rightarrow> bool list list \<Rightarrow> bool list list" where
  "set_clbit c b [] = []"
| "set_clbit c b (r # rs) =
     (if c < length r then r[c := b] # rs else r # set_clbit (c - length r) b rs)"

definition project :: "nat \<Rightarrow> bool \<Rightarrow> amp list \<Rightarrow> amp list" where
  "project q b v = map (\<lambda>i. if qubit_is_1 q i = b then v ! i else (0, 0)) [0..<length v]"

text \<open>Measuring a qubit splits a branch into the outcomes whose projection is not zero.\<close>

definition measure_qubit :: "nat \<Rightarrow> nat \<Rightarrow> branch \<Rightarrow> branch list" where
  "measure_qubit q c br =
     filter (\<lambda>br'. list_ex (\<lambda>a. a \<noteq> (0, 0)) (fst br'))
       [(project q False (fst br), set_clbit c False (snd br)),
        (project q True (fst br), set_clbit c True (snd br))]"

fun measure_qubits :: "(nat \<times> nat) list \<Rightarrow> branch list \<Rightarrow> branch list" where
  "measure_qubits [] brs = brs"
| "measure_qubits ((q, c) # qcs) brs =
     measure_qubits qcs (concat (map (measure_qubit q c) brs))"

text \<open>
  \<^verbatim>\<open>measure_all\<close> adds a register of \<open>n\<close> new classical bits and measures qubit \<open>q\<close>
  into the \<open>q\<close>-th of them.
\<close>

definition measure_all_branch :: "nat \<Rightarrow> branch \<Rightarrow> branch list" where
  "measure_all_branch n br =
     measure_qubits (map (\<lambda>q. (q, length (concat (snd br)) + q)) [0..<n])
       [(fst br, snd br @ [replicate n False])]"

fun execute :: "nat \<Rightarrow> instruction \<Rightarrow> branch list \<Rightarrow> branch list" where
  "execute n (Measure q c) brs = measure_qubits [(q, c)] brs"
| "execute n MeasureAll brs = concat (map (measure_all_branch n) brs)"
| "execute n g brs = map (\<lambda>br. (apply_gate g (fst br), snd br)) brs"

text \<open>
  The memory string: the registers from the last created to the first, separated by a
  blank, each with its highest bit first.
\<close>

definition register_text :: "bool list \<Rightarrow> string" where
  "register_text r = map (\<lambda>b. if b then CHR ''1'' else CHR ''0'') (rev r)"

fun memory_text :: "bool list list \<Rightarrow> string" where
  "memory_text [] = []"
| "memory_text [r] = register_text r"
| "memory_text (r # rs) = memory_text rs @ CHR '' '' # register_text r"

definition outcomes :: "circuit \<Rightarrow> string list" where
  "outcomes qc =
     remdups (map (\<lambda>br. memory_text (snd br))
       (foldl (\<lambda>brs g. execute (num_qubits qc) g brs)
          [((1, 0) # replicate (2 ^ num_qubits qc - 1) (0, 0),
            [replicate (num_clbits qc) False])]
          (data qc)))"

text \<open>The backend that answers with one of the possible memory strings of the circuit.\<close>

definition ideal_backend :: backend where
  "ideal_backend qc c =
     (let os = outcomes qc in if os = [] then [] else os ! nat (c mod int (length os)))"

section \<open>The oracle contract\<close>

text \<open>
  The contract of the measurement oracle, stated on the circuits the engines submit.
  Single qubit: a bit prepared in a basis and measured in some basis gives a one-character
  string, and it gives the prepared bit when the two bases are equal.
\<close>

definition single_qubit_contract :: "backend \<Rightarrow> bool" where
  "single_qubit_contract backend =
     (\<forall>prepared_bit \<in> {0, 1}. \<forall>prep_basis \<in> {0, 1}. \<forall>meas_basis \<in> {0, 1}. \<forall>c.
        backend (BB84_measure meas_basis (BB84_prepare prepared_bit prep_basis)) c
          \<in> {''0'', ''1''}
        \<and> (meas_basis = prep_basis \<longrightarrow>
             backend (BB84_measure meas_basis (BB84_prepare prepared_bit prep_basis)) c
               = (if prepared_bit = 1 then ''1'' else ''0'')))"

text \<open>
  Entangled pair, three bases (E91): in equal bases the two bits are equal for the
  rectilinear and the diagonal basis and complementary for the circular basis (number 2).
\<close>

definition E91_pair_contract :: "backend \<Rightarrow> bool" where
  "E91_pair_contract backend =
     (\<forall>basis \<in> {0, 1, 2}. \<forall>c.
        backend (measure_both (E91_pair basis basis)) c
          \<in> (if basis = 2 then {''01'', ''10''} else {''00'', ''11''}))"

text \<open>Entangled pair, two bases (BBM92): in equal bases the two bits are equal.\<close>

definition BBM92_pair_contract :: "backend \<Rightarrow> bool" where
  "BBM92_pair_contract backend =
     (\<forall>basis \<in> {''rectilinear'', ''diagonal''}. \<forall>c.
        backend (measure_both (BBM92_pair basis basis)) c \<in> {''00'', ''11''})"

definition oracle_contract :: "backend \<Rightarrow> bool" where
  "oracle_contract backend =
     (single_qubit_contract backend \<and> E91_pair_contract backend
      \<and> BBM92_pair_contract backend)"

section \<open>Sequences of draws for examples\<close>

text \<open>The draws of a finite list, followed by zeros.\<close>

definition draws :: "int list \<Rightarrow> rng" where
  "draws cs = (\<lambda>i. if i < length cs then cs ! i else 0)"

section \<open>What one round may do to the keys\<close>

text \<open>
  A round of a custom-bits loop leaves Alice's key alone and either changes nothing or
  appends one bit to Bob's key and advances the cursor; a round of a random loop either
  changes nothing or appends one bit to each key.
\<close>

definition custom_step :: "vars \<Rightarrow> vars \<Rightarrow> bool" where
  "custom_step v v' =
     (alice_key v' = alice_key v
      \<and> (bob_key v' = bob_key v \<and> bit_index v' = bit_index v
         \<or> (\<exists>b. bob_key v' = bob_key v @ [b]) \<and> bit_index v' = bit_index v + 1))"

definition random_step :: "vars \<Rightarrow> vars \<Rightarrow> bool" where
  "random_step v v' =
     (alice_key v' = alice_key v \<and> bob_key v' = bob_key v
      \<or> (\<exists>a b. alice_key v' = alice_key v @ [a] \<and> bob_key v' = bob_key v @ [b]))"

text \<open>
  What the reconciliation of a custom-bits round does to the cursor and to Bob's key,
  given whether the two bases of the round matched.
\<close>

definition reconciled :: "bool \<Rightarrow> vars \<Rightarrow> vars \<Rightarrow> bool" where
  "reconciled bases_match v v' =
     (alice_key v' = alice_key v
      \<and> (if bases_match
         then (\<exists>b. bob_key v' = bob_key v @ [b]) \<and> bit_index v' = bit_index v + 1
         else bob_key v' = bob_key v \<and> bit_index v' = bit_index v
              \<and> py_index (alice_key v') (bit_index v') = py_index (alice_key v) (bit_index v)))"

text \<open>Forgetting Alice's key, to compare two runs that differ in it only.\<close>

definition forget_alice :: "vars \<Rightarrow> vars" where
  "forget_alice v = v\<lparr>alice_key := []\<rparr>"

text \<open>Everything an engine returns except Alice's key.\<close>

definition all_but_alice_key ::
  "(error + key_data \<times> nat) option \<Rightarrow> (error + int list \<times> string \<times> bool \<times> nat) option" where
  "all_but_alice_key =
     map_option (map_sum id (\<lambda>(kd, q). (bob_key kd, protocol kd, eavesdropping kd, q)))"

section \<open>Facts about actions and loops\<close>

lemma ret_Inr [simp]: "ret a p = Inr (b, q) \<longleftrightarrow> b = a \<and> q = p"
  by (auto simp: ret_def)

lemma ret_not_Inl [simp]: "ret a p \<noteq> Inl e"
  by (simp add: ret_def)

lemma lift_Inr [simp]: "lift r p = Inr (b, q) \<longleftrightarrow> r = Inr b \<and> q = p"
  by (auto simp: lift_def split: sum.splits)

lemma bind_Inr:
  "bind m f p = Inr (b, q) \<longleftrightarrow> (\<exists>a p'. m p = Inr (a, p') \<and> f a p' = Inr (b, q))"
  by (auto simp: bind_def split: sum.splits)

lemma draw_Inr [simp]: "draw rnd p = Inr (c, q) \<longleftrightarrow> c = rnd p \<and> q = Suc p"
  by (auto simp: draw_def)

lemma randint_Inr [simp]:
  "randint rnd a b p = Inr (r, q) \<longleftrightarrow> r = a + rnd p mod (b - a + 1) \<and> q = Suc p"
  by (auto simp: randint_def bind_Inr)

lemma choice_Inr [simp]:
  "choice rnd xs p = Inr (r, q) \<longleftrightarrow> py_index xs (rnd p mod int (length xs)) = Inr r \<and> q = Suc p"
  by (auto simp: choice_def bind_Inr)

lemma run_Inr [simp]: "run backend rnd qc p = Inr (s, q) \<longleftrightarrow> s = backend qc (rnd p) \<and> q = Suc p"
  by (auto simp: run_def bind_Inr)

lemma flag_and_chance_off [simp]: "flag_and_chance rnd False pr = ret False"
  by (simp add: flag_and_chance_def)

lemma iteration_Inr:
  "iteration m v = Inr v' \<longleftrightarrow> (\<exists>w q. m v (pos v) = Inr (w, q) \<and> v' = w\<lparr>pos := q\<rparr>)"
  by (auto simp: iteration_def split: sum.splits)

lemma while_loop_unfold:
  "while_loop cond body s =
     (if cond s then (case body s of Inl e \<Rightarrow> Some (Inl e) | Inr s' \<Rightarrow> while_loop cond body s')
      else Some (Inr s))"
  unfolding while_loop_def
  by (subst while_option_unfold, simp split: sum.splits)
     (subst while_option_unfold, simp)

lemma while_loop_rule:
  fixes s :: 'a
  assumes res: "while_loop cond body s = Some (Inr t)"
    and init: "P s"
    and step: "\<And>v v'. P v \<Longrightarrow> cond v \<Longrightarrow> body v = Inr v' \<Longrightarrow> P v'"
  shows "P t \<and> \<not> cond t"
proof -
  define b where "b = (\<lambda>r::error + 'a. case r of Inl _ \<Rightarrow> False | Inr v \<Rightarrow> cond v)"
  define c where "c = (\<lambda>r. case r of Inl e \<Rightarrow> Inl e | Inr v \<Rightarrow> body v)"
  define Q where "Q = (\<lambda>r::error + 'a. case r of Inl _ \<Rightarrow> True | Inr v \<Rightarrow> P v)"
  have w: "while_option b c (Inr s) = Some (Inr t)"
    using res by (simp add: while_loop_def b_def c_def)
  have "Q (Inr t)"
  proof (rule while_option_rule [OF _ w])
    show "Q (Inr s)" using init by (simp add: Q_def)
  next
    fix r assume "Q r" and "b r"
    then show "Q (c r)"
      using step by (cases r) (auto simp: Q_def b_def c_def split: sum.splits)
  qed
  moreover have "\<not> b (Inr t)" using while_option_stop [OF w] .
  ultimately show ?thesis by (simp add: Q_def b_def)
qed

section \<open>The rounds of the sifting engines\<close>

lemma BB84_round_custom_step:
  "BB84_round_custom backend rnd e v = Inr v' \<Longrightarrow> custom_step v v'"
  by (auto simp: BB84_round_custom_def iteration_Inr bind_Inr custom_step_def split: if_splits)

lemma BB84_round_random_step:
  "BB84_round_random backend rnd e v = Inr v' \<Longrightarrow> random_step v v'"
  by (auto simp: BB84_round_random_def iteration_Inr bind_Inr random_step_def split: if_splits)

lemma E91_round_custom_step:
  "E91_round_custom backend rnd e v = Inr v' \<Longrightarrow> custom_step v v'"
  by (auto simp: E91_round_custom_def iteration_Inr bind_Inr custom_step_def Let_def split: if_splits)

lemma E91_round_random_step:
  "E91_round_random backend rnd e v = Inr v' \<Longrightarrow> random_step v v'"
  by (auto simp: E91_round_random_def iteration_Inr bind_Inr random_step_def Let_def split: if_splits)

lemma BBM92_round_custom_step:
  "BBM92_round_custom backend rnd e v = Inr v' \<Longrightarrow> custom_step v v'"
  by (auto simp: BBM92_round_custom_def iteration_Inr bind_Inr custom_step_def split: if_splits)

lemma BBM92_round_random_step:
  "BBM92_round_random backend rnd e v = Inr v' \<Longrightarrow> random_step v v'"
  by (auto simp: BBM92_round_random_def iteration_Inr bind_Inr random_step_def split: if_splits)

section \<open>The sifting loops\<close>

lemma sift_custom_result:
  assumes k: "0 \<le> key_length"
    and body: "\<And>v v'. body v = Inr v' \<Longrightarrow> custom_step v v'"
    and res: "sift_custom body key_length custom_bits p = Some (Inr t)"
  shows "\<exists>custom_bit_list. int_list custom_bits = Inr custom_bit_list
           \<and> key_length \<le> int (length custom_bit_list)
           \<and> alice_key t = take (nat key_length) custom_bit_list
           \<and> int (length (bob_key t)) = key_length
           \<and> bit_index t = key_length"
proof -
  from res obtain l where l: "int_list custom_bits = Inr l"
    and len: "key_length \<le> int (length l)"
    and loop: "while_loop (\<lambda>v. int (length (bob_key v)) < key_length) body
                 (initial (py_prefix l key_length) p) = Some (Inr t)"
    by (auto simp: sift_custom_def split: sum.splits if_splits)
  let ?P = "\<lambda>v. alice_key v = take (nat key_length) l
                \<and> int (length (bob_key v)) \<le> key_length
                \<and> bit_index v = int (length (bob_key v))"
  have init: "?P (initial (py_prefix l key_length) p)"
    using k by (simp add: initial_def py_prefix_def)
  have step: "?P v'" if "?P v" and "int (length (bob_key v)) < key_length" and "body v = Inr v'"
    for v v'
    using body [OF that(3)] that(1,2) by (auto simp: custom_step_def)
  have "?P t \<and> \<not> int (length (bob_key t)) < key_length"
    by (rule while_loop_rule [where P = ?P, OF loop init]) (rule step)
  with l len show ?thesis by auto
qed

lemma sift_random_result:
  assumes k: "0 \<le> key_length"
    and body: "\<And>v v'. body v = Inr v' \<Longrightarrow> random_step v v'"
    and res: "sift_random body key_length p = Some (Inr t)"
  shows "int (length (alice_key t)) = key_length \<and> int (length (bob_key t)) = key_length"
proof -
  let ?P = "\<lambda>v. int (length (alice_key v)) \<le> key_length
                \<and> length (bob_key v) = length (alice_key v)"
  have init: "?P (initial [] p)"
    using k by (simp add: initial_def)
  have step: "?P v'" if "?P v" and "int (length (alice_key v)) < key_length" and "body v = Inr v'"
    for v v'
    using body [OF that(3)] that(1,2) by (auto simp: random_step_def)
  from res have loop: "while_loop (\<lambda>v. int (length (alice_key v)) < key_length) body
                 (initial [] p) = Some (Inr t)"
    by (simp add: sift_random_def)
  have "?P t \<and> \<not> int (length (alice_key t)) < key_length"
    by (rule while_loop_rule [where P = ?P, OF loop init]) (rule step)
  then show ?thesis by auto
qed

section \<open>The engines\<close>

lemma int_list_length: "int_list s = Inr l \<Longrightarrow> length l = length s"
  by (induction s arbitrary: l) (auto split: sum.splits)

lemma int_list_bits:
  "all_in_01 s \<Longrightarrow> int_list s = Inr (map (\<lambda>c. if c = CHR ''1'' then 1 else 0) s)"
  by (induction s) (auto simp: all_in_01_def int_of_char_def is_digit_def)

lemma int_list_not_digit:
  "\<exists>c \<in> set s. \<not> is_digit c \<Longrightarrow> int_list s = Inl ValueError"
  by (induction s) (auto simp: int_of_char_def split: sum.splits)

lemma for_each_custom:
  assumes "for_each js (Teleportation_round_custom backend rnd e) v = Inr t"
  shows "alice_key t = alice_key v \<and> length (bob_key t) = length (bob_key v) + length js"
  using assms
proof (induction js arbitrary: v)
  case Nil
  then show ?case by simp
next
  case (Cons i js)
  from Cons.prems obtain w where w: "Teleportation_round_custom backend rnd e i v = Inr w"
    and rest: "for_each js (Teleportation_round_custom backend rnd e) w = Inr t"
    by (auto split: sum.splits)
  from w have "alice_key w = alice_key v \<and> length (bob_key w) = Suc (length (bob_key v))"
    by (auto simp: Teleportation_round_custom_def iteration_Inr bind_Inr)
  with Cons.IH [OF rest] show ?case by simp
qed

lemma for_each_random:
  assumes "for_each js (Teleportation_round_random backend rnd e) v = Inr t"
  shows "length (alice_key t) = length (alice_key v) + length js
         \<and> length (bob_key t) = length (bob_key v) + length js"
  using assms
proof (induction js arbitrary: v)
  case Nil
  then show ?case by simp
next
  case (Cons i js)
  from Cons.prems obtain w where w: "Teleportation_round_random backend rnd e i v = Inr w"
    and rest: "for_each js (Teleportation_round_random backend rnd e) w = Inr t"
    by (auto split: sum.splits)
  from w have "length (alice_key w) = Suc (length (alice_key v))
               \<and> length (bob_key w) = Suc (length (bob_key v))"
    by (auto simp: Teleportation_round_random_def iteration_Inr bind_Inr)
  with Cons.IH [OF rest] show ?case by simp
qed

lemma Teleportation_custom_result:
  assumes k: "0 \<le> key_length"
    and res: "Teleportation_custom backend rnd key_length e custom_bits p = Inr t"
  shows "\<exists>custom_bit_list. int_list custom_bits = Inr custom_bit_list
           \<and> key_length \<le> int (length custom_bit_list)
           \<and> alice_key t = take (nat key_length) custom_bit_list
           \<and> int (length (bob_key t)) = key_length"
proof -
  from res obtain l where l: "int_list custom_bits = Inr l"
    and len: "key_length \<le> int (length l)"
    and loop: "for_each (py_range key_length) (Teleportation_round_custom backend rnd e)
                 (initial (py_prefix l key_length) p) = Inr t"
    by (auto simp: Teleportation_custom_def split: sum.splits if_splits)
  from for_each_custom [OF loop] k l len show ?thesis
    by (simp add: initial_def py_prefix_def py_range_def)
qed

lemma returned_Some_Inr:
  "map_option (map_sum id (returned name e)) r = Some (Inr (kd, p'))
     \<longleftrightarrow> (\<exists>v. r = Some (Inr v) \<and> returned name e v = (kd, p'))"
  by (cases r; cases "the r") auto

lemma returned_Inr:
  "map_sum id (returned name e) r = Inr (kd, p')
     \<longleftrightarrow> (\<exists>v. r = Inr v \<and> returned name e v = (kd, p'))"
  by (cases r) auto

text \<open>The four engines, in the custom-bits mode and in the random mode.\<close>

lemma generate_key_custom_result:
  assumes k: "0 \<le> key_length" and t: "truthy custom_bits"
    and res: "generate_key proto backend rnd key_length e custom_bits p = Some (Inr (kd, p'))"
  shows "\<exists>custom_bit_list. int_list (the custom_bits) = Inr custom_bit_list
           \<and> key_length \<le> int (length custom_bit_list)
           \<and> alice_key kd = take (nat key_length) custom_bit_list
           \<and> int (length (bob_key kd)) = key_length"
proof (cases proto)
  case BB84Protocol
  with res t obtain v where
    r: "sift_custom (BB84_round_custom backend rnd e) key_length (the custom_bits) p = Some (Inr v)"
    and "kd = fst (returned ''BB84'' e v)"
    by (auto simp: generate_key_def BB84_generate_key_def returned_Some_Inr returned_Inr)
  with sift_custom_result [where body = "BB84_round_custom backend rnd e", OF k BB84_round_custom_step [of backend rnd e] r]
  show ?thesis by (auto simp: returned_def)
next
  case E91Protocol
  with res t obtain v where
    r: "sift_custom (E91_round_custom backend rnd e) key_length (the custom_bits) p = Some (Inr v)"
    and "kd = fst (returned ''E91'' e v)"
    by (auto simp: generate_key_def E91_generate_key_def returned_Some_Inr returned_Inr)
  with sift_custom_result [where body = "E91_round_custom backend rnd e", OF k E91_round_custom_step [of backend rnd e] r]
  show ?thesis by (auto simp: returned_def)
next
  case BBM92Protocol
  with res t obtain v where
    r: "sift_custom (BBM92_round_custom backend rnd e) key_length (the custom_bits) p = Some (Inr v)"
    and "kd = fst (returned ''BBM92'' e v)"
    by (auto simp: generate_key_def BBM92_generate_key_def returned_Some_Inr returned_Inr)
  with sift_custom_result [where body = "BBM92_round_custom backend rnd e", OF k BBM92_round_custom_step [of backend rnd e] r]
  show ?thesis by (auto simp: returned_def)
next
  case TeleportationQKD
  with res t obtain v where
    r: "Teleportation_custom backend rnd key_length e (the custom_bits) p = Inr v"
    and "kd = fst (returned ''Teleportation QKD'' e v)"
    by (auto simp: generate_key_def Teleportation_generate_key_def returned_Some_Inr returned_Inr)
  with Teleportation_custom_result [OF k r]
  show ?thesis by (auto simp: returned_def)
qed

lemma generate_key_random_result:
  assumes k: "0 \<le> key_length" and t: "\<not> truthy custom_bits"
    and res: "generate_key proto backend rnd key_length e custom_bits p = Some (Inr (kd, p'))"
  shows "int (length (alice_key kd)) = key_length \<and> int (length (bob_key kd)) = key_length"
proof (cases proto)
  case BB84Protocol
  with res t obtain v where
    r: "sift_random (BB84_round_random backend rnd e) key_length p = Some (Inr v)"
    and "kd = fst (returned ''BB84'' e v)"
    by (auto simp: generate_key_def BB84_generate_key_def returned_Some_Inr returned_Inr)
  with sift_random_result [where body = "BB84_round_random backend rnd e", OF k BB84_round_random_step [of backend rnd e] r]
  show ?thesis by (auto simp: returned_def)
next
  case E91Protocol
  with res t obtain v where
    r: "sift_random (E91_round_random backend rnd e) key_length p = Some (Inr v)"
    and "kd = fst (returned ''E91'' e v)"
    by (auto simp: generate_key_def E91_generate_key_def returned_Some_Inr returned_Inr)
  with sift_random_result [where body = "E91_round_random backend rnd e", OF k E91_round_random_step [of backend rnd e] r]
  show ?thesis by (auto simp: returned_def)
next
  case BBM92Protocol
  with res t obtain v where
    r: "sift_random (BBM92_round_random backend rnd e) key_length p = Some (Inr v)"
    and "kd = fst (returned ''BBM92'' e v)"
    by (auto simp: generate_key_def BBM92_generate_key_def returned_Some_Inr returned_Inr)
  with sift_random_result [where body = "BBM92_round_random backend rnd e", OF k BBM92_round_random_step [of backend rnd e] r]
  show ?thesis by (auto simp: returned_def)
next
  case TeleportationQKD
  with res t obtain v where
    r: "for_each (py_range key_length) (Teleportation_round_random backend rnd e) (initial [] p)
       = Inr v"
    and "kd = fst (returned ''Teleportation QKD'' e v)"
    by (auto simp: generate_key_def Teleportation_generate_key_def returned_Some_Inr returned_Inr)
  with for_each_random [OF r] k
  show ?thesis by (auto simp: returned_def initial_def py_range_def)
qed

section \<open>Rounds without eavesdropping under the oracle contract\<close>

lemma bind_ret [simp]: "bind (ret a) f = f a"
  by (simp add: bind_def ret_def)

lemma py_int_bit: "py_int (if b = 1 then ''1'' else ''0'') = Inr (if b = 1 then 1 else 0)"
  by (simp add: py_int_def is_digit_def)

lemma BB84_bases_range:
  "BB84_bases rnd p = Inr ((a, b), q) \<Longrightarrow> a \<in> {0, 1} \<and> b \<in> {0, 1}"
  by (auto simp: BB84_bases_def bind_Inr)

lemma BB84_transmit_noiseless:
  assumes c: "single_qubit_contract backend"
    and r: "alice_bit \<in> {0, 1}" "basis \<in> {0, 1}"
    and t: "BB84_transmit backend rnd False alice_bit basis basis p = Inr (bob_result, q)"
  shows "bob_result = alice_bit"
proof -
  from c r have "backend (BB84_measure basis (BB84_prepare alice_bit basis)) (rnd p)
                   = (if alice_bit = 1 then ''1'' else ''0'')"
    unfolding single_qubit_contract_def by blast
  with t py_int_bit [of alice_bit] r(1) show ?thesis
    by (auto simp: BB84_transmit_def Let_def bind_Inr)
qed

lemma BB84_round_random_agree:
  assumes c: "single_qubit_contract backend"
    and s: "BB84_round_random backend rnd False v = Inr v'"
    and i: "bob_key v = alice_key v"
  shows "bob_key v' = alice_key v'"
proof -
  from s obtain alice_bit alice_basis bob_basis bob_result q1 q2 q3 where
    bit: "alice_bit = rnd (pos v) mod 2"
    and bases: "BB84_bases rnd q1 = Inr ((alice_basis, bob_basis), q2)"
    and t: "BB84_transmit backend rnd False alice_bit alice_basis bob_basis q2
              = Inr (bob_result, q3)"
    and v': "v' = (if alice_basis = bob_basis
                   then v\<lparr>alice_key := alice_key v @ [alice_bit],
                          bob_key := bob_key v @ [bob_result]\<rparr>
                   else v)\<lparr>pos := q3\<rparr>"
    by (auto simp: BB84_round_random_def iteration_Inr bind_Inr)
  show ?thesis
  proof (cases "alice_basis = bob_basis")
    case True
    from bit have "alice_bit \<in> {0, 1}" by auto
    with BB84_transmit_noiseless [OF c _ _ t [unfolded True [symmetric]]]
         BB84_bases_range [OF bases] True
    have "bob_result = alice_bit" by blast
    with v' i True show ?thesis by simp
  next
    case False
    with v' i show ?thesis by simp
  qed
qed


text \<open>Custom bits: Bob's key stays the prefix of Alice's key that the cursor has passed.\<close>

lemma BB84_round_custom_agree:
  assumes c: "single_qubit_contract backend"
    and bits: "set (alice_key v) \<subseteq> {0, 1}"
    and s: "BB84_round_custom backend rnd False v = Inr v'"
    and i: "bit_index v = int (length (bob_key v))"
           "bob_key v = take (length (bob_key v)) (alice_key v)"
  shows "alice_key v' = alice_key v \<and> bit_index v' = int (length (bob_key v'))
         \<and> bob_key v' = take (length (bob_key v')) (alice_key v')"
proof -
  from s obtain alice_bit alice_basis bob_basis bob_result q2 q3 where
    bases: "BB84_bases rnd (pos v) = Inr ((alice_basis, bob_basis), q2)"
    and bit: "py_index (alice_key v) (bit_index v) = Inr alice_bit"
    and t: "BB84_transmit backend rnd False alice_bit alice_basis bob_basis q2
              = Inr (bob_result, q3)"
    and v': "v' = (if alice_basis = bob_basis
                   then v\<lparr>bob_key := bob_key v @ [bob_result],
                          bit_index := bit_index v + 1\<rparr>
                   else v)\<lparr>pos := q3\<rparr>"
    by (auto simp: BB84_round_custom_def iteration_Inr bind_Inr)
  show ?thesis
  proof (cases "alice_basis = bob_basis")
    case True
    from bit i(1) have n: "length (bob_key v) < length (alice_key v)"
      and a: "alice_bit = alice_key v ! length (bob_key v)"
      by (auto simp: py_index_def split: if_splits)
    with bits have "alice_bit \<in> {0, 1}"
      using nth_mem by blast
    with BB84_transmit_noiseless [OF c _ _ t [unfolded True [symmetric]]]
         BB84_bases_range [OF bases] True
    have "bob_result = alice_bit" by blast
    with v' i True a n show ?thesis
      using take_Suc_conv_app_nth [OF n] by simp
  next
    case False
    with v' i show ?thesis by simp
  qed
qed

lemma E91_bases_range:
  "E91_bases rnd p = Inr ((a, b), q) \<Longrightarrow> a \<in> {0, 1, 2} \<and> b \<in> {0, 1, 2}"
proof -
  have "c mod 3 \<in> {0, 1, 2}" for c :: int
    by (simp; presburger)
  then show "E91_bases rnd p = Inr ((a, b), q) \<Longrightarrow> a \<in> {0, 1, 2} \<and> b \<in> {0, 1, 2}"
    by (auto simp: E91_bases_def bind_Inr)
qed

lemma E91_round_random_agree:
  assumes c: "E91_pair_contract backend"
    and s: "E91_round_random backend rnd False v = Inr v'"
    and i: "bob_key v = alice_key v"
  shows "bob_key v' = alice_key v'"
proof -
  from s obtain alice_basis bob_basis measurements q2 q3 q4 w where
    bases: "E91_bases rnd (pos v) = Inr ((alice_basis, bob_basis), q2)"
    and m: "E91_exchange backend rnd False alice_basis bob_basis q2 = Inr (measurements, q3)"
    and w: "(if alice_basis = bob_basis then
               bind (lift (py_index measurements 1)) (\<lambda>m1.
               bind (lift (int_of_char m1)) (\<lambda>alice_bit.
               bind (lift (py_index measurements 0)) (\<lambda>m0.
               bind (lift (int_of_char m0)) (\<lambda>bob_bit.
               let bob_bit = (if alice_basis = 2 then 1 - bob_bit else bob_bit) in
               ret (v\<lparr>alice_key := alice_key v @ [alice_bit],
                      bob_key := bob_key v @ [bob_bit]\<rparr>)))))
             else ret v) q3 = Inr (w, q4)"
    and v': "v' = w\<lparr>pos := q4\<rparr>"
    by (auto simp: E91_round_random_def iteration_Inr bind_Inr)
  show ?thesis
  proof (cases "alice_basis = bob_basis")
    case True
    from m have "measurements = backend (measure_both (E91_pair alice_basis bob_basis)) (rnd q2)"
      by (auto simp: E91_exchange_def Let_def bind_Inr)
    with c E91_bases_range [OF bases] True
    have ms: "measurements \<in> (if alice_basis = 2 then {''01'', ''10''} else {''00'', ''11''})"
      unfolding E91_pair_contract_def by blast
    from w True ms i have "bob_key w = alice_key w"
      by (auto simp: bind_Inr py_index_def int_of_char_def is_digit_def Let_def
            split: if_splits)
    with v' show ?thesis by simp
  next
    case False
    with w v' i show ?thesis by auto
  qed
qed


lemma BBM92_bases_range:
  "BBM92_bases rnd p = Inr ((a, b), q)
     \<Longrightarrow> a \<in> {''rectilinear'', ''diagonal''} \<and> b \<in> {''rectilinear'', ''diagonal''}"
proof -
  have pick: "a \<in> {''rectilinear'', ''diagonal''}"
    if "py_index [''rectilinear'', ''diagonal'']
          (c mod int (length [''rectilinear'', ''diagonal''])) = Inr a" for c :: int and a
  proof -
    have "c mod 2 = 0 \<or> c mod 2 = 1" by presburger
    with that show ?thesis by (auto simp: py_index_def)
  qed
  show "BBM92_bases rnd p = Inr ((a, b), q)
     \<Longrightarrow> a \<in> {''rectilinear'', ''diagonal''} \<and> b \<in> {''rectilinear'', ''diagonal''}"
    unfolding BBM92_bases_def choice_Inr bind_Inr ret_Inr using pick by blast
qed

lemma BBM92_round_random_agree:
  assumes c: "BBM92_pair_contract backend"
    and s: "BBM92_round_random backend rnd False v = Inr v'"
    and i: "bob_key v = alice_key v"
  shows "bob_key v' = alice_key v'"
proof -
  from s obtain alice_basis bob_basis measurements q2 q3 q4 w where
    bases: "BBM92_bases rnd (pos v) = Inr ((alice_basis, bob_basis), q2)"
    and m: "BBM92_exchange backend rnd False alice_basis bob_basis q2 = Inr (measurements, q3)"
    and w: "(if alice_basis = bob_basis then
               bind (lift (py_index measurements 1)) (\<lambda>m1.
               bind (lift (int_of_char m1)) (\<lambda>alice_bit.
               bind (lift (py_index measurements 0)) (\<lambda>m0.
               bind (lift (int_of_char m0)) (\<lambda>bob_bit.
               ret (v\<lparr>alice_key := alice_key v @ [alice_bit],
                      bob_key := bob_key v @ [bob_bit]\<rparr>)))))
             else ret v) q3 = Inr (w, q4)"
    and v': "v' = w\<lparr>pos := q4\<rparr>"
    by (auto simp: BBM92_round_random_def iteration_Inr bind_Inr)
  show ?thesis
  proof (cases "alice_basis = bob_basis")
    case True
    from m have "measurements
                   = backend (measure_both (BBM92_pair alice_basis bob_basis)) (rnd q2)"
      by (auto simp: BBM92_exchange_def Let_def bind_Inr)
    with c BBM92_bases_range [OF bases] True
    have ms: "measurements \<in> {''00'', ''11''}"
      unfolding BBM92_pair_contract_def by blast
    from w True ms i have "bob_key w = alice_key w"
      by (auto simp: bind_Inr py_index_def int_of_char_def is_digit_def)
    with v' show ?thesis by simp
  next
    case False
    with w v' i show ?thesis by auto
  qed
qed

text \<open>The loops.\<close>

lemma sift_random_agree:
  assumes body: "\<And>v v'. body v = Inr v' \<Longrightarrow> bob_key v = alice_key v \<Longrightarrow> bob_key v' = alice_key v'"
    and res: "sift_random body key_length p = Some (Inr t)"
  shows "bob_key t = alice_key t"
proof -
  let ?P = "\<lambda>v. bob_key v = alice_key v"
  from res have loop: "while_loop (\<lambda>v. int (length (alice_key v)) < key_length) body
                 (initial [] p) = Some (Inr t)"
    by (simp add: sift_random_def)
  have init: "?P (initial [] p)" by (simp add: initial_def)
  have "?P t \<and> \<not> int (length (alice_key t)) < key_length"
    by (rule while_loop_rule [where P = ?P, OF loop init]) (rule body)
  then show ?thesis by simp
qed

lemma BB84_sift_custom_agree:
  assumes c: "single_qubit_contract backend"
    and k: "0 \<le> key_length"
    and bits: "all_in_01 custom_bits"
    and res: "sift_custom (BB84_round_custom backend rnd False) key_length custom_bits p
                = Some (Inr t)"
  shows "bob_key t = alice_key t"
proof -
  define l where "l = map (\<lambda>c. if c = CHR ''1'' then 1 else (0::int)) custom_bits"
  have l01: "set (take (nat key_length) l) \<subseteq> {0, 1}"
    by (auto simp: l_def dest!: in_set_takeD)
  from res int_list_bits [OF bits] k
  have loop: "while_loop (\<lambda>v. int (length (bob_key v)) < key_length)
                 (BB84_round_custom backend rnd False) (initial (take (nat key_length) l) p)
                = Some (Inr t)"
    and len: "key_length \<le> int (length l)"
    by (auto simp: sift_custom_def l_def py_prefix_def split: if_splits)
  let ?P = "\<lambda>v. alice_key v = take (nat key_length) l
                \<and> bit_index v = int (length (bob_key v))
                \<and> bob_key v = take (length (bob_key v)) (alice_key v)"
  have init: "?P (initial (take (nat key_length) l) p)" by (simp add: initial_def)
  have step: "?P v'" if "?P v" and "int (length (bob_key v)) < key_length"
    and "BB84_round_custom backend rnd False v = Inr v'" for v v'
    using BB84_round_custom_agree [OF c _ that(3), of ] that(1) l01 by auto
  have "?P t \<and> \<not> int (length (bob_key t)) < key_length"
    by (rule while_loop_rule [where P = ?P, OF loop init]) (rule step)
  moreover from sift_custom_result [OF k BB84_round_custom_step res] int_list_bits [OF bits]
  have "int (length (bob_key t)) = key_length" by auto
  ultimately show ?thesis using len k by auto
qed

section \<open>Runs that differ in Alice's key only\<close>

lemma while_loop_commute:
  assumes c: "\<And>v. cond (f v) = cond v"
    and b: "\<And>v. body (f v) = map_sum id f (body v)"
  shows "map_option (map_sum id f) (while_loop cond body s) = while_loop cond body (f s)"
proof -
  define bb where "bb = (\<lambda>r::error + 'a. case r of Inl _ \<Rightarrow> False | Inr v \<Rightarrow> cond v)"
  define cc where "cc = (\<lambda>r::error + 'a. case r of Inl e \<Rightarrow> Inl e | Inr v \<Rightarrow> body v)"
  have "map_option (map_sum id f) (while_option bb cc (Inr s))
          = while_option bb cc (map_sum id f (Inr s))"
  proof (rule while_option_commute)
    fix r show "bb r = bb (map_sum id f r)"
      by (cases r) (simp_all add: bb_def c)
  next
    fix r assume "bb r"
    then show "map_sum id f (cc r) = cc (map_sum id f r)"
      by (cases r) (simp_all add: bb_def cc_def b)
  qed
  then show ?thesis by (simp add: while_loop_def bb_def cc_def)
qed

lemma E91_round_custom_forget:
  "E91_round_custom backend rnd e (forget_alice v)
     = map_sum id forget_alice (E91_round_custom backend rnd e v)"
  by (auto simp: E91_round_custom_def iteration_def bind_def lift_def ret_def forget_alice_def
        Let_def split: sum.splits prod.splits)

lemma BBM92_round_custom_forget:
  "BBM92_round_custom backend rnd e (forget_alice v)
     = map_sum id forget_alice (BBM92_round_custom backend rnd e v)"
  by (auto simp: BBM92_round_custom_def iteration_def bind_def lift_def ret_def forget_alice_def
        Let_def split: sum.splits prod.splits)

lemma sift_custom_forget:
  assumes b: "\<And>v. body (forget_alice v) = map_sum id forget_alice (body v)"
    and v: "all_in_01 custom_bits" "key_length \<le> int (length custom_bits)"
  shows "map_option (map_sum id forget_alice) (sift_custom body key_length custom_bits p)
           = while_loop (\<lambda>v. int (length (bob_key v)) < key_length) body (initial [] p)"
proof -
  have "forget_alice (initial a p) = initial [] p" for a
    by (simp add: forget_alice_def initial_def)
  with while_loop_commute [of "\<lambda>v. int (length (bob_key v)) < key_length" forget_alice body, OF _ b]
       int_list_bits [OF v(1)] v(2)
  show ?thesis by (simp add: sift_custom_def forget_alice_def)
qed

lemma all_but_alice_key_returned:
  "all_but_alice_key (map_option (map_sum id (returned name e)) r)
     = map_option (map_sum id (\<lambda>v. (bob_key v, name, e, pos v)))
         (map_option (map_sum id forget_alice) r)"
  by (cases r; cases "the r")
     (auto simp: all_but_alice_key_def returned_def forget_alice_def)

section \<open>Validation of the custom bits\<close>

lemma int_list_error: "int_list s = Inl err \<Longrightarrow> err = ValueError"
  by (induction s) (auto simp: int_of_char_def split: sum.splits if_splits)

lemma sift_custom_rejects:
  assumes "(\<exists>c \<in> set s. \<not> is_digit c) \<or> int (length s) < key_length"
  shows "sift_custom body key_length s p = Some (Inl ValueError)"
proof (cases "int_list s")
  case (Inl err)
  then show ?thesis using int_list_error by (simp add: sift_custom_def)
next
  case (Inr l)
  with assms int_list_not_digit [of s] int_list_length [OF Inr] show ?thesis
    by (auto simp: sift_custom_def)
qed

lemma generate_key_rejects:
  assumes "custom_bits \<noteq> []"
    and "(\<exists>c \<in> set custom_bits. \<not> is_digit c) \<or> int (length custom_bits) < key_length"
  shows "generate_key proto backend rnd key_length e (Some custom_bits) p = Some (Inl ValueError)"
proof (cases proto)
  case BB84Protocol
  with assms(1) sift_custom_rejects [OF assms(2)] show ?thesis
    by (simp add: generate_key_def BB84_generate_key_def truthy_def)
next
  case E91Protocol
  with assms(1) sift_custom_rejects [OF assms(2)] show ?thesis
    by (simp add: generate_key_def E91_generate_key_def truthy_def)
next
  case BBM92Protocol
  with assms(1) sift_custom_rejects [OF assms(2)] show ?thesis
    by (simp add: generate_key_def BBM92_generate_key_def truthy_def)
next
  case TeleportationQKD
  have "Teleportation_custom backend rnd key_length e custom_bits p = Inl ValueError"
  proof (cases "int_list custom_bits")
    case (Inl err)
    then show ?thesis using int_list_error by (simp add: Teleportation_custom_def)
  next
    case (Inr l)
    with assms(2) int_list_not_digit [of custom_bits] int_list_length [OF Inr]
    show ?thesis by (auto simp: Teleportation_custom_def)
  qed
  with TeleportationQKD assms(1) show ?thesis
    by (simp add: generate_key_def Teleportation_generate_key_def truthy_def)
qed

lemma respond_not_400: "respond e r \<noteq> Error_response m 400"
  by (cases r) (auto simp: respond_def Let_def split: prod.splits)

lemma run_simulation_custom:
  assumes "protocols protocol_name = Some proto" and "custom_bits \<noteq> []"
  shows "run_simulation backend rnd protocol_name key_length e True custom_bits p =
     (if \<not> all_in_01 custom_bits then Some (Error_response Only_0s_and_1s 400)
      else if int (length custom_bits) < key_length
        then Some (Error_response (At_least_characters key_length) 400)
      else map_option (respond e)
             (generate_key proto backend rnd key_length e (Some custom_bits) p))"
  using assms by (simp add: run_simulation_def)

section \<open>Properties of the security metrics\<close>

lemma count_matches_le: "count_matches a b tot \<le> tot"
proof -
  have "length (filter (\<lambda>(i, j). i = j) (zip (take tot a) (take tot b)))
          \<le> length (zip (take tot a) (take tot b))"
    by (rule length_filter_le)
  also have "\<dots> \<le> tot" by simp
  finally show ?thesis by (simp add: count_matches_def)
qed

text \<open>
  C6. The classification uses strict thresholds: secure exactly when the error rate is below
  0.15, High exactly below 0.05, Medium exactly from 0.05 up to but excluding 0.15, Low
  otherwise. This holds of the threshold lines at every rate and of every record that
  \<^verbatim>\<open>calculate_security_metrics\<close> returns; a rate of exactly 0.05 (one disagreement in
  twenty bits) is Medium and a rate of exactly 0.15 (three in twenty) is Low and not secure.
\<close>

theorem C6_strict_thresholds:
  "fst (security_thresholds q) = (q < 15 / 100)
   \<and> (snd (security_thresholds q) = ''High'') = (q < 5 / 100)
   \<and> (snd (security_thresholds q) = ''Medium'') = (5 / 100 \<le> q \<and> q < 15 / 100)
   \<and> (snd (security_thresholds q) = ''Low'') = (\<not> q < 15 / 100)
   \<and> is_secure (calculate_security_metrics a b e)
       = (qber (calculate_security_metrics a b e) < 15 / 100)
   \<and> (security_level (calculate_security_metrics a b e) = ''High'')
       = (qber (calculate_security_metrics a b e) < 5 / 100)
   \<and> (security_level (calculate_security_metrics a b e) = ''Medium'')
       = (5 / 100 \<le> qber (calculate_security_metrics a b e)
          \<and> qber (calculate_security_metrics a b e) < 15 / 100)
   \<and> (security_level (calculate_security_metrics a b e) = ''Low'')
       = (\<not> qber (calculate_security_metrics a b e) < 15 / 100)
   \<and> security_thresholds (5 / 100) = (True, ''Medium'')
   \<and> security_thresholds (15 / 100) = (False, ''Low'')
   \<and> calculate_security_metrics (replicate 20 1) (0 # replicate 19 1) False
       = \<lparr>agreement_rate = 19 / 20, qber = 5 / 100, is_secure = True,
          security_level = ''Medium''\<rparr>
   \<and> calculate_security_metrics (replicate 20 1) (0 # 0 # 0 # replicate 17 1) False
       = \<lparr>agreement_rate = 17 / 20, qber = 15 / 100, is_secure = False,
          security_level = ''Low''\<rparr>"
proof -
  have thr: "fst (security_thresholds q) = (q < 15 / 100)
      \<and> (snd (security_thresholds q) = ''High'') = (q < 5 / 100)
      \<and> (snd (security_thresholds q) = ''Medium'') = (5 / 100 \<le> q \<and> q < 15 / 100)
      \<and> (snd (security_thresholds q) = ''Low'') = (\<not> q < 15 / 100)" for q
    by (auto simp: security_thresholds_def)
  have rec: "is_secure (calculate_security_metrics a b e)
        = fst (security_thresholds (qber (calculate_security_metrics a b e)))
      \<and> security_level (calculate_security_metrics a b e)
        = snd (security_thresholds (qber (calculate_security_metrics a b e)))"
    by (simp add: calculate_security_metrics_def Let_def security_thresholds_def)
  have b1: "security_thresholds (5 / 100) = (True, ''Medium'')"
    by (simp add: security_thresholds_def)
  have b2: "security_thresholds (15 / 100) = (False, ''Low'')"
    by (simp add: security_thresholds_def)
  have k1: "calculate_security_metrics (replicate 20 1) (0 # replicate 19 1) False
       = \<lparr>agreement_rate = 19 / 20, qber = 5 / 100, is_secure = True,
          security_level = ''Medium''\<rparr>"
    by code_simp
  have k2: "calculate_security_metrics (replicate 20 1) (0 # 0 # 0 # replicate 17 1) False
       = \<lparr>agreement_rate = 17 / 20, qber = 15 / 100, is_secure = False,
          security_level = ''Low''\<rparr>"
    by code_simp
  show ?thesis
    using thr [of q] thr [of "qber (calculate_security_metrics a b e)"] rec b1 b2 k1 k2
    by presburger
qed


lemma count_matches_positions:
  "count_matches a b (min (length a) (length b))
     = length (filter (\<lambda>i. a ! i = b ! i) [0..<min (length a) (length b)])"
proof -
  let ?n = "min (length a) (length b)"
  have "count_matches a b ?n = card {i. i < ?n \<and> a ! i = b ! i}"
    unfolding count_matches_def length_filter_conv_card
    by (rule arg_cong [where f = card]) (auto simp: min_def)
  also have "\<dots> = length (filter (\<lambda>i. a ! i = b ! i) [0..<?n])"
    by (simp add: length_filter_conv_card cong: conj_cong)
  finally show ?thesis .
qed

text \<open>
  C7. For non-empty keys the metric compares the positions below the shorter length: the
  agreement rate is the number of positions where the keys agree divided by that length,
  and the error rate is one minus it. Keys of different lengths are cut to the shorter
  one, not rejected. The keys \<open>[1,0,1,1]\<close> and \<open>[1,1,1,0]\<close> give 0.5 and 0.5.
\<close>

theorem C7_compare_up_to_shorter:
  assumes "ka \<noteq> []" and "kb \<noteq> []"
  shows "agreement_rate (calculate_security_metrics ka kb e)
       = of_nat (length (filter (\<lambda>i. ka ! i = kb ! i)
                   [0..<min (length ka) (length kb)]))
         / of_nat (min (length ka) (length kb))
     \<and> qber (calculate_security_metrics ka kb e)
       = 1 - agreement_rate (calculate_security_metrics ka kb e)
     \<and> calculate_security_metrics [1, 0, 1, 1] [1, 1, 1, 0] e
       = \<lparr>agreement_rate = 1 / 2, qber = 1 / 2, is_secure = False, security_level = ''Low''\<rparr>"
proof -
  have ex: "calculate_security_metrics [1, 0, 1, 1] [1, 1, 1, 0] e
       = \<lparr>agreement_rate = 1 / 2, qber = 1 / 2, is_secure = False, security_level = ''Low''\<rparr>"
    by (simp add: calculate_security_metrics_def count_matches_def security_thresholds_def Let_def)
  have gen: "agreement_rate (calculate_security_metrics ka kb e)
       = of_nat (length (filter (\<lambda>i. ka ! i = kb ! i)
                   [0..<min (length ka) (length kb)]))
         / of_nat (min (length ka) (length kb))
     \<and> qber (calculate_security_metrics ka kb e)
       = 1 - agreement_rate (calculate_security_metrics ka kb e)"
    using assms count_matches_positions [of ka kb]
    by (simp add: calculate_security_metrics_def Let_def)
  show ?thesis using ex gen by blast
qed

text \<open>Keys of lengths three and two: two positions are compared, one agrees.\<close>

theorem C7_compare_up_to_shorter_witness:
  "[1, 0, 1 :: int] \<noteq> [] \<and> [1, 1 :: int] \<noteq> []
   \<and> agreement_rate (calculate_security_metrics [1, 0, 1] [1, 1] False) = 1 / 2
   \<and> qber (calculate_security_metrics [1, 0, 1] [1, 1] False) = 1 / 2"
  using C7_compare_up_to_shorter [of "[1, 0, 1]" "[1, 1]" False]
  by (simp add: upt_rec)

text \<open>
  C8. When at least one key is empty the metric is exactly: agreement rate 0, error rate 1,
  not secure, level Low.
\<close>

theorem C8_empty_key:
  "ka = [] \<or> kb = [] \<Longrightarrow>
     calculate_security_metrics ka kb e
       = \<lparr>agreement_rate = 0, qber = 1, is_secure = False, security_level = ''Low''\<rparr>"
  by (simp add: calculate_security_metrics_def)

theorem C8_empty_key_witness:
  "([] = ([]::int list) \<or> [1, 0] = ([]::int list))
   \<and> calculate_security_metrics [] [1, 0] True
       = \<lparr>agreement_rate = 0, qber = 1, is_secure = False, security_level = ''Low''\<rparr>"
  using C8_empty_key [of "[]" "[1, 0]" True] by simp

section \<open>Keys without eavesdropping\<close>

lemma equal_keys_metrics:
  assumes "k \<noteq> []"
  shows "calculate_security_metrics k k e
           = \<lparr>agreement_rate = 1, qber = 0, is_secure = True, security_level = ''High''\<rparr>"
proof -
  have "filter (\<lambda>(i, j). i = j) (zip k k) = zip k k"
    by (rule filter_True) (auto simp: zip_same)
  then have "count_matches k k (length k) = length k"
    by (simp add: count_matches_def)
  with assms show ?thesis
    by (simp add: calculate_security_metrics_def security_thresholds_def)
qed

lemma generate_key_noiseless:
  assumes c: "oracle_contract backend"
    and k: "0 \<le> key_length"
    and m: "proto = BB84Protocol \<and> (truthy custom_bits \<longrightarrow> all_in_01 (the custom_bits))
            \<or> (proto = E91Protocol \<or> proto = BBM92Protocol) \<and> \<not> truthy custom_bits"
    and res: "generate_key proto backend rnd key_length False custom_bits p
                = Some (Inr (kd, p'))"
  shows "bob_key kd = alice_key kd"
proof -
  from c have c1: "single_qubit_contract backend" and c2: "E91_pair_contract backend"
    and c3: "BBM92_pair_contract backend"
    by (simp_all add: oracle_contract_def)
  consider (bb84c) "proto = BB84Protocol" "truthy custom_bits" "all_in_01 (the custom_bits)"
    | (bb84r) "proto = BB84Protocol" "\<not> truthy custom_bits"
    | (e91) "proto = E91Protocol" "\<not> truthy custom_bits"
    | (bbm92) "proto = BBM92Protocol" "\<not> truthy custom_bits"
    using m by blast
  then show ?thesis
  proof cases
    case bb84c
    with res obtain v where
      r: "sift_custom (BB84_round_custom backend rnd False) key_length (the custom_bits) p
            = Some (Inr v)"
      and "kd = fst (returned ''BB84'' False v)"
      by (auto simp: generate_key_def BB84_generate_key_def returned_Some_Inr returned_Inr)
    with BB84_sift_custom_agree [OF c1 k bb84c(3) r] show ?thesis
      by (simp add: returned_def)
  next
    case bb84r
    with res obtain v where
      r: "sift_random (BB84_round_random backend rnd False) key_length p = Some (Inr v)"
      and "kd = fst (returned ''BB84'' False v)"
      by (auto simp: generate_key_def BB84_generate_key_def returned_Some_Inr returned_Inr)
    with sift_random_agree [OF BB84_round_random_agree [OF c1] r] show ?thesis
      by (simp add: returned_def)
  next
    case e91
    with res obtain v where
      r: "sift_random (E91_round_random backend rnd False) key_length p = Some (Inr v)"
      and "kd = fst (returned ''E91'' False v)"
      by (auto simp: generate_key_def E91_generate_key_def returned_Some_Inr returned_Inr)
    with sift_random_agree [OF E91_round_random_agree [OF c2] r] show ?thesis
      by (simp add: returned_def)
  next
    case bbm92
    with res obtain v where
      r: "sift_random (BBM92_round_random backend rnd False) key_length p = Some (Inr v)"
      and "kd = fst (returned ''BBM92'' False v)"
      by (auto simp: generate_key_def BBM92_generate_key_def returned_Some_Inr returned_Inr)
    with sift_random_agree [OF BBM92_round_random_agree [OF c3] r] show ?thesis
      by (simp add: returned_def)
  qed
qed

text \<open>
  The backend that follows the circuit obeys the contract: the possible memory strings of
  each circuit the contract speaks of are computed.
\<close>

lemma ideal_backend_in_outcomes:
  assumes "outcomes qc = os" and "os \<noteq> []"
  shows "ideal_backend qc c \<in> set os"
proof -
  from assms(2) have "0 < int (length os)" by simp
  then have "c mod int (length os) < int (length os)" and "0 \<le> c mod int (length os)"
    by (rule pos_mod_bound, rule pos_mod_sign)
  then have "nat (c mod int (length os)) < length os" by linarith
  with assms show ?thesis by (simp add: ideal_backend_def Let_def)
qed

lemma ideal_single_qubit: "single_qubit_contract ideal_backend"
proof -
  have o: "outcomes (BB84_measure 0 (BB84_prepare 0 0)) = [''0'']"
      "outcomes (BB84_measure 0 (BB84_prepare 1 0)) = [''1'']"
      "outcomes (BB84_measure 1 (BB84_prepare 0 1)) = [''0'']"
      "outcomes (BB84_measure 1 (BB84_prepare 1 1)) = [''1'']"
      "outcomes (BB84_measure 1 (BB84_prepare 0 0)) = [''0'', ''1'']"
      "outcomes (BB84_measure 1 (BB84_prepare 1 0)) = [''0'', ''1'']"
      "outcomes (BB84_measure 0 (BB84_prepare 0 1)) = [''0'', ''1'']"
      "outcomes (BB84_measure 0 (BB84_prepare 1 1)) = [''0'', ''1'']"
    by code_simp+
  show ?thesis
    unfolding single_qubit_contract_def
    using o [THEN ideal_backend_in_outcomes] by auto
qed

lemma ideal_E91_pair: "E91_pair_contract ideal_backend"
proof -
  have o: "outcomes (measure_both (E91_pair 0 0)) = [''00'', ''11'']"
      "outcomes (measure_both (E91_pair 1 1)) = [''00'', ''11'']"
      "outcomes (measure_both (E91_pair 2 2)) = [''10'', ''01'']"
    by code_simp+
  show ?thesis
    unfolding E91_pair_contract_def
    using o [THEN ideal_backend_in_outcomes] by auto
qed

lemma ideal_BBM92_pair: "BBM92_pair_contract ideal_backend"
proof -
  have o: "outcomes (measure_both (BBM92_pair ''rectilinear'' ''rectilinear'')) = [''00'', ''11'']"
      "outcomes (measure_both (BBM92_pair ''diagonal'' ''diagonal'')) = [''00'', ''11'']"
    by code_simp+
  show ?thesis
    unfolding BBM92_pair_contract_def
    using o [THEN ideal_backend_in_outcomes] by auto
qed

lemma ideal_backend_contract: "oracle_contract ideal_backend"
  by (simp add: oracle_contract_def ideal_single_qubit ideal_E91_pair ideal_BBM92_pair)

text \<open>
  The circuit of the Teleportation engine has the same four possible memory strings for
  both secret bits, and its middle character, which decides Bob's \<^verbatim>\<open>x\<close> gate, can be
  either bit.
\<close>

lemma teleport_outcomes:
  "outcomes (qc_measure (qc_measure (teleport_circuit 0) 0 0) 1 1)
     = [''000'', ''010'', ''001'', ''011'']"
  "outcomes (qc_measure (qc_measure (teleport_circuit 1) 0 0) 1 1)
     = [''000'', ''010'', ''001'', ''011'']"
  by code_simp+

section \<open>Whether the sifting loops return\<close>

text \<open>
  A sifting loop returns only if enough rounds match. It returns when every round makes
  progress, and it runs forever when no round does.
\<close>

lemma while_loop_returns:
  fixes s :: 'a
  assumes init: "P s"
    and step: "\<And>v. P v \<Longrightarrow> cond v \<Longrightarrow> \<exists>v'. body v = Inr v' \<and> P v' \<and> f v' < (f v :: nat)"
  shows "\<exists>t. while_loop cond body s = Some (Inr t) \<and> P t"
proof -
  define b where "b = (\<lambda>r::error + 'a. case r of Inl _ \<Rightarrow> False | Inr v \<Rightarrow> cond v)"
  define c where "c = (\<lambda>r::error + 'a. case r of Inl e \<Rightarrow> Inl e | Inr v \<Rightarrow> body v)"
  define Q where "Q = (\<lambda>r::error + 'a. case r of Inl _ \<Rightarrow> False | Inr v \<Rightarrow> P v)"
  define g where "g = (\<lambda>r::error + 'a. case r of Inl _ \<Rightarrow> 0 | Inr v \<Rightarrow> f v)"
  have inv: "Q (c r) \<and> g (c r) < g r" if "Q r" and "b r" for r
  proof -
    from that obtain v where r: "r = Inr v" and "P v" and "cond v"
      by (cases r) (auto simp: Q_def b_def)
    with step obtain v' where "body v = Inr v'" and "P v'" and "f v' < f v" by blast
    with r show ?thesis by (simp add: Q_def c_def g_def)
  qed
  have start: "Q (Inr s)" using init by (simp add: Q_def)
  from measure_while_option_Some [of Q b c g "Inr s"] inv start
  obtain t where w: "while_option b c (Inr s) = Some t" by blast
  have "Q t"
  proof (rule while_option_rule [OF _ w])
    show "Q (Inr s)" by (rule start)
  next
    fix r assume "Q r" and "b r"
    then show "Q (c r)" using inv by blast
  qed
  with w have "while_option b c (Inr s) = Some t" and "Q t" by simp_all
  then show ?thesis
    by (cases t) (auto simp: while_loop_def b_def c_def Q_def)
qed

lemma while_loop_runs_forever:
  fixes s :: 'a
  assumes init: "P s"
    and step: "\<And>v. P v \<Longrightarrow> cond v \<and> (\<exists>v'. body v = Inr v' \<and> P v')"
  shows "while_loop cond body s = None"
proof (rule ccontr)
  define b where "b = (\<lambda>r::error + 'a. case r of Inl _ \<Rightarrow> False | Inr v \<Rightarrow> cond v)"
  define c where "c = (\<lambda>r::error + 'a. case r of Inl e \<Rightarrow> Inl e | Inr v \<Rightarrow> body v)"
  define Q where "Q = (\<lambda>r::error + 'a. case r of Inl _ \<Rightarrow> False | Inr v \<Rightarrow> P v)"
  assume "while_loop cond body s \<noteq> None"
  then obtain t where w: "while_option b c (Inr s) = Some t"
    by (auto simp: while_loop_def b_def c_def)
  have "Q t"
  proof (rule while_option_rule [OF _ w])
    show "Q (Inr s)" using init by (simp add: Q_def)
  next
    fix r assume "Q r" and "b r"
    then obtain v where r: "r = Inr v" and "P v"
      by (cases r) (auto simp: Q_def)
    with step obtain v' where "body v = Inr v'" and "P v'" by blast
    with r show "Q (c r)" by (simp add: Q_def c_def)
  qed
  moreover have "\<not> b t" using while_option_stop [OF w] .
  ultimately show False
    using step by (cases t) (auto simp: Q_def b_def)
qed

text \<open>
  BB84 without custom bits and without eavesdropping, on a backend that obeys the
  contract. When every draw is 0 all rounds match and the engine returns; when the third
  draw of every round is 1 and the others are 0, Bob's basis never equals Alice's and the
  engine never returns.
\<close>

lemma BB84_transmit_total:
  assumes c: "single_qubit_contract backend"
    and r: "alice_bit \<in> {0, 1}" "alice_basis \<in> {0, 1}" "bob_basis \<in> {0, 1}"
  shows "\<exists>bob_result. BB84_transmit backend rnd False alice_bit alice_basis bob_basis q
           = Inr (bob_result, Suc q)"
proof -
  from c r have "backend (BB84_measure bob_basis (BB84_prepare alice_bit alice_basis)) (rnd q)
                   \<in> {''0'', ''1''}"
    unfolding single_qubit_contract_def by blast
  then show ?thesis
    by (auto simp: BB84_transmit_def Let_def bind_Inr py_int_def is_digit_def)
qed

lemma BB84_returns_when_bases_match:
  assumes c: "single_qubit_contract backend"
  shows "\<exists>kd p'. generate_key BB84Protocol backend (\<lambda>i. 0) key_length False None p
           = Some (Inr (kd, p'))"
proof -
  let ?body = "BB84_round_random backend (\<lambda>i. 0) False"
  have step: "\<exists>v'. ?body v = Inr v' \<and> True
                \<and> nat (key_length - int (length (alice_key v')))
                    < nat (key_length - int (length (alice_key v)))"
    if "int (length (alice_key v)) < key_length" for v
  proof -
    from BB84_transmit_total [OF c, of 0 0 0 "\<lambda>i. 0" "Suc (Suc (Suc (pos v)))"]
    obtain bob_result where
      "BB84_transmit backend (\<lambda>i. 0) False 0 0 0 (Suc (Suc (Suc (pos v))))
         = Inr (bob_result, Suc (Suc (Suc (Suc (pos v)))))"
      by auto
    then have "?body v = Inr (v\<lparr>alice_key := alice_key v @ [0],
                               bob_key := bob_key v @ [bob_result],
                               pos := Suc (Suc (Suc (Suc (pos v))))\<rparr>)"
      by (simp add: BB84_round_random_def BB84_bases_def iteration_Inr bind_Inr)
    with that show ?thesis by auto
  qed
  from while_loop_returns [where P = "\<lambda>_. True" and body = ?body
         and cond = "\<lambda>v. int (length (alice_key v)) < key_length"
         and f = "\<lambda>v. nat (key_length - int (length (alice_key v)))" and s = "initial [] p"]
       step
  obtain t where "sift_random ?body key_length p = Some (Inr t)"
    unfolding sift_random_def by blast
  then show ?thesis
    by (simp add: generate_key_def BB84_generate_key_def truthy_def returned_def)
qed

lemma BB84_runs_forever_when_bases_differ:
  assumes c: "single_qubit_contract backend" and k: "1 \<le> key_length"
  shows "generate_key BB84Protocol backend (\<lambda>i. if i mod 4 = 2 then 1 else 0) key_length
           False None 0 = None"
proof -
  let ?rnd = "\<lambda>i::nat. if i mod 4 = 2 then 1 else (0::int)"
  let ?body = "BB84_round_random backend ?rnd False"
  let ?P = "\<lambda>v. alice_key v = [] \<and> pos v mod 4 = 0"
  have step: "int (length (alice_key v)) < key_length \<and> (\<exists>v'. ?body v = Inr v' \<and> ?P v')"
    if "?P v" for v
  proof -
    from that have "pos v mod 4 = 0" by simp
    then have m: "Suc (pos v) mod 4 = 1" "Suc (Suc (pos v)) mod 4 = 2"
      and m': "Suc (Suc (Suc (Suc (pos v)))) mod 4 = 0" by presburger+
    from BB84_transmit_total [OF c, of 0 0 1 ?rnd "Suc (Suc (Suc (pos v)))"]
    obtain bob_result where
      "BB84_transmit backend ?rnd False 0 0 1 (Suc (Suc (Suc (pos v))))
         = Inr (bob_result, Suc (Suc (Suc (Suc (pos v)))))"
      by auto
    with that m have "?body v = Inr (v\<lparr>pos := Suc (Suc (Suc (Suc (pos v))))\<rparr>)"
      by (simp add: BB84_round_random_def BB84_bases_def iteration_Inr bind_Inr)
    with that k m' show ?thesis by auto
  qed
  have "while_loop (\<lambda>v. int (length (alice_key v)) < key_length) ?body (initial [] 0) = None"
    by (rule while_loop_runs_forever [where P = ?P]) (simp add: initial_def, rule step)
  then show ?thesis
    by (simp add: generate_key_def BB84_generate_key_def truthy_def sift_random_def)
qed

text \<open>The Teleportation engine has no sifting loop and always returns or raises.\<close>

lemma Teleportation_always_returns:
  "\<exists>r. generate_key TeleportationQKD backend rnd key_length e custom_bits p = Some r"
  by (simp add: generate_key_def Teleportation_generate_key_def)

section \<open>Properties of the engines\<close>

text \<open>
  C2. For each of the four engines and every key length of at least 1, with or without
  custom bits and with or without eavesdropping: when \<^verbatim>\<open>generate_key\<close> returns, both
  keys have exactly \<^verbatim>\<open>key_length\<close> elements.
\<close>

theorem C2_key_lengths:
  assumes "1 \<le> key_length"
    and "generate_key proto backend rnd key_length e custom_bits p = Some (Inr (kd, p'))"
  shows "int (length (alice_key kd)) = key_length \<and> int (length (bob_key kd)) = key_length"
proof (cases "truthy custom_bits")
  case True
  from generate_key_custom_result [OF _ True assms(2)] assms(1)
  show ?thesis by auto
next
  case False
  from generate_key_random_result [OF _ False assms(2)] assms(1)
  show ?thesis by auto
qed

text \<open>
  BB84 with custom bits and eavesdropping, two bits: every round is intercepted, the
  bases of the first round differ and those of the next two match.
\<close>

theorem C2_key_lengths_witness:
  "(1::int) \<le> 2
   \<and> generate_key BB84Protocol ideal_backend
         (draws [0, 1, 0, 1, 1, 1, 1, 5404319552844595]) 2 True (Some ''10'') 0
       = Some (Inr (\<lparr>alice_key = [1, 0], bob_key = [0, 0], protocol = ''BB84'',
                      eavesdropping = True\<rparr>, 18))
   \<and> int (length [1, 0 :: int]) = 2 \<and> int (length [0, 0 :: int]) = 2"
proof -
  have r: "generate_key BB84Protocol ideal_backend
         (draws [0, 1, 0, 1, 1, 1, 1, 5404319552844595]) 2 True (Some ''10'') 0
       = Some (Inr (\<lparr>alice_key = [1, 0], bob_key = [0, 0], protocol = ''BB84'',
                      eavesdropping = True\<rparr>, 18))"
    by code_simp
  from C2_key_lengths [OF _ r] r show ?thesis by simp
qed




text \<open>
  C5. In the custom-bits mode of BB84, E91 and BBM92 the cursor \<^verbatim>\<open>bit_index\<close> advances
  exactly when the two bases drawn in the round are equal: a matching round appends one
  bit to Bob's key and advances the cursor by one, a mismatched round appends nothing,
  leaves the cursor where it is, and so leaves the same bit of Alice's key under the
  cursor for the next round. Alice's key is never changed by a round.
\<close>

theorem C5_cursor_advances_on_match:
  "(BB84_bases rnd (pos v) = Inr ((alice_basis, bob_basis), q)
      \<and> BB84_round_custom backend rnd e v = Inr v'
    \<longrightarrow> reconciled (alice_basis = bob_basis) v v')
   \<and> (E91_bases rnd (pos v) = Inr ((alice_basis, bob_basis), q)
      \<and> E91_round_custom backend rnd e v = Inr v'
    \<longrightarrow> reconciled (alice_basis = bob_basis) v v')
   \<and> (BBM92_bases rnd (pos v) = Inr ((alice_name, bob_name), q)
      \<and> BBM92_round_custom backend rnd e v = Inr v'
    \<longrightarrow> reconciled (alice_name = bob_name) v v')"
proof (intro conjI impI)
  assume "BB84_bases rnd (pos v) = Inr ((alice_basis, bob_basis), q)
            \<and> BB84_round_custom backend rnd e v = Inr v'"
  then show "reconciled (alice_basis = bob_basis) v v'"
    by (cases "alice_basis = bob_basis")
       (auto simp: BB84_round_custom_def iteration_Inr bind_Inr reconciled_def)
next
  assume "E91_bases rnd (pos v) = Inr ((alice_basis, bob_basis), q)
            \<and> E91_round_custom backend rnd e v = Inr v'"
  then show "reconciled (alice_basis = bob_basis) v v'"
    by (cases "alice_basis = bob_basis")
       (auto simp: E91_round_custom_def iteration_Inr bind_Inr reconciled_def Let_def)
next
  assume "BBM92_bases rnd (pos v) = Inr ((alice_name, bob_name), q)
            \<and> BBM92_round_custom backend rnd e v = Inr v'"
  then show "reconciled (alice_name = bob_name) v v'"
    by (cases "alice_name = bob_name")
       (auto simp: BBM92_round_custom_def iteration_Inr bind_Inr reconciled_def)
qed

text \<open>
  A matching BB84 round, a mismatched E91 round and a matching BBM92 round on the backend
  that follows the circuit.
\<close>

theorem C5_cursor_advances_on_match_witness:
  "(BB84_bases (draws [1, 1, 0]) (pos (initial [1, 0] 0)) = Inr ((1, 1), 2)
      \<and> BB84_round_custom ideal_backend (draws [1, 1, 0]) False (initial [1, 0] 0)
          = Inr \<lparr>alice_key = [1, 0], bob_key = [1], bit_index = 1, pos = 3\<rparr>)
   \<and> reconciled ((1::int) = 1) (initial [1, 0] 0)
        \<lparr>alice_key = [1, 0], bob_key = [1], bit_index = 1, pos = 3\<rparr>
   \<and> (E91_bases (draws [2, 1, 0]) (pos (initial [1, 0] 0)) = Inr ((2, 1), 2)
      \<and> E91_round_custom ideal_backend (draws [2, 1, 0]) False (initial [1, 0] 0)
          = Inr \<lparr>alice_key = [1, 0], bob_key = [], bit_index = 0, pos = 3\<rparr>)
   \<and> reconciled ((2::int) = 1) (initial [1, 0] 0)
        \<lparr>alice_key = [1, 0], bob_key = [], bit_index = 0, pos = 3\<rparr>
   \<and> (BBM92_bases (draws [1, 1, 1]) (pos (initial [1, 0] 0))
          = Inr ((''diagonal'', ''diagonal''), 2)
      \<and> BBM92_round_custom ideal_backend (draws [1, 1, 1]) False (initial [1, 0] 0)
          = Inr \<lparr>alice_key = [1, 0], bob_key = [1], bit_index = 1, pos = 3\<rparr>)
   \<and> reconciled (''diagonal'' = ''diagonal'') (initial [1, 0] 0)
        \<lparr>alice_key = [1, 0], bob_key = [1], bit_index = 1, pos = 3\<rparr>"
proof -
  have b1: "BB84_bases (draws [1, 1, 0]) (pos (initial [1, 0] 0)) = Inr ((1, 1), 2)"
    by code_simp
  have r1: "BB84_round_custom ideal_backend (draws [1, 1, 0]) False (initial [1, 0] 0)
          = Inr \<lparr>alice_key = [1, 0], bob_key = [1], bit_index = 1, pos = 3\<rparr>"
    by code_simp
  have b2: "E91_bases (draws [2, 1, 0]) (pos (initial [1, 0] 0)) = Inr ((2, 1), 2)"
    by code_simp
  have r2: "E91_round_custom ideal_backend (draws [2, 1, 0]) False (initial [1, 0] 0)
          = Inr \<lparr>alice_key = [1, 0], bob_key = [], bit_index = 0, pos = 3\<rparr>"
    by code_simp
  have b3: "BBM92_bases (draws [1, 1, 1]) (pos (initial [1, 0] 0))
          = Inr ((''diagonal'', ''diagonal''), 2)"
    by code_simp
  have r3: "BBM92_round_custom ideal_backend (draws [1, 1, 1]) False (initial [1, 0] 0)
          = Inr \<lparr>alice_key = [1, 0], bob_key = [1], bit_index = 1, pos = 3\<rparr>"
    by code_simp
  from C5_cursor_advances_on_match
         [of "draws [1, 1, 0]" "initial [1, 0] 0" 1 1 2 ideal_backend False
             "\<lparr>alice_key = [1, 0], bob_key = [1], bit_index = 1, pos = 3\<rparr>"]
       C5_cursor_advances_on_match
         [of "draws [2, 1, 0]" "initial [1, 0] 0" 2 1 2 ideal_backend False
             "\<lparr>alice_key = [1, 0], bob_key = [], bit_index = 0, pos = 3\<rparr>"]
       C5_cursor_advances_on_match
         [of "draws [1, 1, 1]" "initial [1, 0] 0" _ _ 2 ideal_backend False
             "\<lparr>alice_key = [1, 0], bob_key = [1], bit_index = 1, pos = 3\<rparr>"
             "''diagonal''" "''diagonal''"]
       b1 r1 b2 r2 b3 r3
  show ?thesis by blast
qed

text \<open>
  C9. In the custom-bits mode of E91 and of BBM92, Bob's key does not depend on the custom
  bits: two calls with the same backend and the same draws but different valid, non-empty
  custom bit strings return the same exception or the same Bob key, name, flag and final
  draw position; only Alice's key differs. No round of these two loops reads Alice's key.
\<close>

theorem C9_bob_key_ignores_custom_bits:
  assumes "proto = E91Protocol \<or> proto = BBM92Protocol"
    and "first_bits \<noteq> []" and "all_in_01 first_bits"
    and "key_length \<le> int (length first_bits)"
    and "other_bits \<noteq> []" and "all_in_01 other_bits"
    and "key_length \<le> int (length other_bits)"
  shows "all_but_alice_key
           (generate_key proto backend rnd key_length e (Some first_bits) p)
         = all_but_alice_key
             (generate_key proto backend rnd key_length e (Some other_bits) p)"
  using assms(1)
proof
  assume "proto = E91Protocol"
  with assms(2,5)
       sift_custom_forget [where body = "E91_round_custom backend rnd e",
         OF E91_round_custom_forget assms(3,4), of p]
       sift_custom_forget [where body = "E91_round_custom backend rnd e",
         OF E91_round_custom_forget assms(6,7), of p]
  show ?thesis
    by (simp add: generate_key_def E91_generate_key_def truthy_def all_but_alice_key_returned)
next
  assume "proto = BBM92Protocol"
  with assms(2,5)
       sift_custom_forget [where body = "BBM92_round_custom backend rnd e",
         OF BBM92_round_custom_forget assms(3,4), of p]
       sift_custom_forget [where body = "BBM92_round_custom backend rnd e",
         OF BBM92_round_custom_forget assms(6,7), of p]
  show ?thesis
    by (simp add: generate_key_def BBM92_generate_key_def truthy_def all_but_alice_key_returned)
qed

text \<open>E91 with the custom bits \<^verbatim>\<open>0110\<close> and \<^verbatim>\<open>1000\<close> on the same draws.\<close>

theorem C9_bob_key_ignores_custom_bits_witness:
  "(E91Protocol = E91Protocol \<or> E91Protocol = BBM92Protocol)
   \<and> ''0110'' \<noteq> [] \<and> all_in_01 ''0110'' \<and> (3::int) \<le> int (length ''0110'')
   \<and> ''1000'' \<noteq> [] \<and> all_in_01 ''1000'' \<and> (3::int) \<le> int (length ''1000'')
   \<and> generate_key E91Protocol ideal_backend (draws [0, 1, 0, 2, 2, 1, 1, 1, 1, 0, 0, 1])
         3 False (Some ''0110'') 0
       = Some (Inr (\<lparr>alice_key = [0, 1, 1], bob_key = [1, 1, 1], protocol = ''E91'',
                      eavesdropping = False\<rparr>, 12))
   \<and> generate_key E91Protocol ideal_backend (draws [0, 1, 0, 2, 2, 1, 1, 1, 1, 0, 0, 1])
         3 False (Some ''1000'') 0
       = Some (Inr (\<lparr>alice_key = [1, 0, 0], bob_key = [1, 1, 1], protocol = ''E91'',
                      eavesdropping = False\<rparr>, 12))
   \<and> all_but_alice_key
         (generate_key E91Protocol ideal_backend (draws [0, 1, 0, 2, 2, 1, 1, 1, 1, 0, 0, 1])
            3 False (Some ''0110'') 0)
       = all_but_alice_key
           (generate_key E91Protocol ideal_backend (draws [0, 1, 0, 2, 2, 1, 1, 1, 1, 0, 0, 1])
              3 False (Some ''1000'') 0)"
proof -
  have v1: "all_in_01 ''0110''" and v2: "all_in_01 ''1000''" by code_simp+
  have r1: "generate_key E91Protocol ideal_backend (draws [0, 1, 0, 2, 2, 1, 1, 1, 1, 0, 0, 1])
         3 False (Some ''0110'') 0
       = Some (Inr (\<lparr>alice_key = [0, 1, 1], bob_key = [1, 1, 1], protocol = ''E91'',
                      eavesdropping = False\<rparr>, 12))"
    by code_simp
  have r2: "generate_key E91Protocol ideal_backend (draws [0, 1, 0, 2, 2, 1, 1, 1, 1, 0, 0, 1])
         3 False (Some ''1000'') 0
       = Some (Inr (\<lparr>alice_key = [1, 0, 0], bob_key = [1, 1, 1], protocol = ''E91'',
                      eavesdropping = False\<rparr>, 12))"
    by code_simp
  have "all_but_alice_key
         (generate_key E91Protocol ideal_backend (draws [0, 1, 0, 2, 2, 1, 1, 1, 1, 0, 0, 1])
            3 False (Some ''0110'') 0)
       = all_but_alice_key
           (generate_key E91Protocol ideal_backend (draws [0, 1, 0, 2, 2, 1, 1, 1, 1, 0, 0, 1])
              3 False (Some ''1000'') 0)"
    by (rule C9_bob_key_ignores_custom_bits) (simp_all add: v1 v2)
  with v1 v2 r1 r2 show ?thesis by simp
qed

text \<open>
  C3, as the code has it. The alphabet of the custom bits is checked by the route
  \<^verbatim>\<open>run_simulation\<close>, not by the engines. A request for a supported protocol with
  \<^verbatim>\<open>use_custom_bits\<close> set and a non-empty string is answered with status 400 and one of
  the two validation messages if and only if the string has a character other than
  \<^verbatim>\<open>0\<close> and \<^verbatim>\<open>1\<close> or is shorter than the key length; that answer is the same for
  every backend and every sequence of draws, so no engine and no oracle is involved. An
  engine itself raises \<^verbatim>\<open>ValueError\<close>, returning no key, when a non-empty string has a
  character that is not a decimal digit or is shorter than the key length. A string of
  length 5 with key length 8 and a string containing \<^verbatim>\<open>2\<close> are rejected by the route.
\<close>

theorem C3_rejected_by_the_route:
  assumes "protocols protocol_name = Some proto" and "custom_bits \<noteq> []"
  shows "(run_simulation backend rnd protocol_name key_length e True custom_bits p
            \<in> {Some (Error_response Only_0s_and_1s 400),
                Some (Error_response (At_least_characters key_length) 400)})
           = (\<not> all_in_01 custom_bits \<or> int (length custom_bits) < key_length)
         \<and> (\<not> all_in_01 custom_bits \<or> int (length custom_bits) < key_length \<longrightarrow>
              run_simulation backend rnd protocol_name key_length e True custom_bits p
                = run_simulation other_backend other_rnd protocol_name key_length e True
                    custom_bits other_p)
         \<and> ((\<exists>c \<in> set custom_bits. \<not> is_digit c) \<or> int (length custom_bits) < key_length \<longrightarrow>
              generate_key proto backend rnd key_length e (Some custom_bits) p
                = Some (Inl ValueError))
         \<and> run_simulation backend rnd ''bb84'' 8 e True ''10110'' p
             = Some (Error_response (At_least_characters 8) 400)
         \<and> run_simulation backend rnd ''bb84'' 8 e True ''101101120'' p
             = Some (Error_response Only_0s_and_1s 400)"
proof -
  have one: "(run_simulation backend rnd protocol_name key_length e True custom_bits p
            \<in> {Some (Error_response Only_0s_and_1s 400),
                Some (Error_response (At_least_characters key_length) 400)})
           = (\<not> all_in_01 custom_bits \<or> int (length custom_bits) < key_length)"
    using respond_not_400
    by (cases "generate_key proto backend rnd key_length e (Some custom_bits) p")
       (auto simp: run_simulation_custom [OF assms])
  have two: "run_simulation backend rnd protocol_name key_length e True custom_bits p
                = run_simulation other_backend other_rnd protocol_name key_length e True
                    custom_bits other_p"
    if "\<not> all_in_01 custom_bits \<or> int (length custom_bits) < key_length"
    using that by (auto simp: run_simulation_custom [OF assms])
  have three: "generate_key proto backend rnd key_length e (Some custom_bits) p
                = Some (Inl ValueError)"
    if "(\<exists>c \<in> set custom_bits. \<not> is_digit c) \<or> int (length custom_bits) < key_length"
    using generate_key_rejects [OF assms(2) that] .
  have four: "run_simulation backend rnd ''bb84'' 8 e True ''10110'' p
             = Some (Error_response (At_least_characters 8) 400)"
    by (simp add: run_simulation_def protocols_def all_in_01_def)
  have five: "run_simulation backend rnd ''bb84'' 8 e True ''101101120'' p
             = Some (Error_response Only_0s_and_1s 400)"
    by (simp add: run_simulation_def protocols_def all_in_01_def)
  from one two three four five show ?thesis by blast
qed

text \<open>A request for E91 with the custom bits \<^verbatim>\<open>10a\<close>.\<close>

theorem C3_rejected_by_the_route_witness:
  "protocols ''e91'' = Some E91Protocol \<and> ''10a'' \<noteq> []
   \<and> run_simulation ideal_backend (draws []) ''e91'' 2 False True ''10a'' 0
       = Some (Error_response Only_0s_and_1s 400)
   \<and> \<not> all_in_01 ''10a''
   \<and> generate_key E91Protocol ideal_backend (draws []) 2 False (Some ''10a'') 0
       = Some (Inl ValueError)"
proof -
  have p: "protocols ''e91'' = Some E91Protocol" by (simp add: protocols_def)
  have n: "''10a'' \<noteq> []" by simp
  have v: "\<not> all_in_01 ''10a''" by code_simp
  have d: "\<exists>c \<in> set ''10a''. \<not> is_digit c" by code_simp
  from C3_rejected_by_the_route [OF p n, of ideal_backend "draws []" 2 False 0] v d p
  show ?thesis by (auto simp: run_simulation_custom [OF p n])
qed

text \<open>
  C3 as stated fails on the engines: \<^verbatim>\<open>int('2')\<close> is 2, so the BB84 engine accepts the
  custom bits \<^verbatim>\<open>2\<close> and returns the key \<open>[2]\<close> for Alice.
\<close>

theorem C3_engine_accepts_digit_2:
  "\<not> all_in_01 ''2''
   \<and> generate_key BB84Protocol ideal_backend (draws [0, 0, 0]) 1 False (Some ''2'') 0
       = Some (Inr (\<lparr>alice_key = [2], bob_key = [0], protocol = ''BB84'',
                      eavesdropping = False\<rparr>, 3))"
  by code_simp


text \<open>
  C1, as the code has it. Against a backend that obeys the oracle contract, for every key
  length of at least 1 and without eavesdropping, the key of Bob equals the key of Alice
  position by position, so that the agreement rate is 1 and the error rate is 0, whenever
  \<^verbatim>\<open>generate_key\<close> returns, for BB84 (without custom bits, or with custom bits that are
  all \<^verbatim>\<open>0\<close> or \<^verbatim>\<open>1\<close>) and for E91 and BBM92 without custom bits.
\<close>

theorem C1_noiseless_keys_agree:
  assumes "oracle_contract backend" and "1 \<le> key_length"
    and "proto = BB84Protocol \<and> (truthy custom_bits \<longrightarrow> all_in_01 (the custom_bits))
         \<or> (proto = E91Protocol \<or> proto = BBM92Protocol) \<and> \<not> truthy custom_bits"
    and "generate_key proto backend rnd key_length False custom_bits p = Some (Inr (kd, p'))"
  shows "bob_key kd = alice_key kd
         \<and> agreement_rate (calculate_security_metrics (alice_key kd) (bob_key kd) False) = 1
         \<and> qber (calculate_security_metrics (alice_key kd) (bob_key kd) False) = 0"
proof -
  from assms(2) have k: "0 \<le> key_length" by simp
  have eq: "bob_key kd = alice_key kd"
    using generate_key_noiseless [OF assms(1) k assms(3,4)] .
  have "int (length (alice_key kd)) = key_length"
  proof (cases "truthy custom_bits")
    case True
    from generate_key_custom_result [OF k True assms(4)] k show ?thesis by auto
  next
    case False
    from generate_key_random_result [OF k False assms(4)] show ?thesis by simp
  qed
  with assms(2) have "alice_key kd \<noteq> []" by auto
  with eq equal_keys_metrics [of "alice_key kd" False] show ?thesis by simp
qed

text \<open>E91 without custom bits: a round in the circular basis, a mismatch, a diagonal round.\<close>

theorem C1_noiseless_keys_agree_witness:
  "oracle_contract ideal_backend \<and> (1::int) \<le> 2
   \<and> (E91Protocol = BB84Protocol \<and> (truthy None \<longrightarrow> all_in_01 (the None))
       \<or> (E91Protocol = E91Protocol \<or> E91Protocol = BBM92Protocol) \<and> \<not> truthy None)
   \<and> generate_key E91Protocol ideal_backend (draws [2, 2, 1, 0, 1, 0, 1, 1, 1]) 2 False None 0
       = Some (Inr (\<lparr>alice_key = [1, 1], bob_key = [1, 1], protocol = ''E91'',
                      eavesdropping = False\<rparr>, 9))
   \<and> agreement_rate (calculate_security_metrics [1, 1] [1, 1] False) = 1
   \<and> qber (calculate_security_metrics [1, 1] [1, 1] False) = 0"
proof -
  have r: "generate_key E91Protocol ideal_backend (draws [2, 2, 1, 0, 1, 0, 1, 1, 1]) 2 False
             None 0
       = Some (Inr (\<lparr>alice_key = [1, 1], bob_key = [1, 1], protocol = ''E91'',
                      eavesdropping = False\<rparr>, 9))"
    by code_simp
  have m: "E91Protocol = BB84Protocol \<and> (truthy None \<longrightarrow> all_in_01 (the None))
       \<or> (E91Protocol = E91Protocol \<or> E91Protocol = BBM92Protocol) \<and> \<not> truthy None"
    by (simp add: truthy_def)
  from C1_noiseless_keys_agree [OF ideal_backend_contract _ m r] ideal_backend_contract m r
  show ?thesis by simp
qed

text \<open>
  C1 as stated fails, on a backend that obeys the contract and without eavesdropping. E91
  with the custom bit \<^verbatim>\<open>0\<close>: both bases are rectilinear, the pair is measured as
  \<^verbatim>\<open>11\<close>, and Bob's key is \<open>[1]\<close> against Alice's \<open>[0]\<close>. Teleportation without custom
  bits: the secret bit is 1, Alice's measurement gives \<^verbatim>\<open>000\<close>, Bob's new circuit gets no
  gate and measures 0.
\<close>

theorem C1_keys_differ_without_eavesdropping:
  "oracle_contract ideal_backend
   \<and> generate_key E91Protocol ideal_backend (draws [0, 0, 1]) 1 False (Some ''0'') 0
       = Some (Inr (\<lparr>alice_key = [0], bob_key = [1], protocol = ''E91'',
                      eavesdropping = False\<rparr>, 3))
   \<and> generate_key TeleportationQKD ideal_backend (draws [1, 0, 0]) 1 False None 0
       = Some (Inr (\<lparr>alice_key = [1], bob_key = [0], protocol = ''Teleportation QKD'',
                      eavesdropping = False\<rparr>, 3))
   \<and> calculate_security_metrics [0] [1] False
       = \<lparr>agreement_rate = 0, qber = 1, is_secure = False, security_level = ''Low''\<rparr>
   \<and> calculate_security_metrics [1] [0] False
       = \<lparr>agreement_rate = 0, qber = 1, is_secure = False, security_level = ''Low''\<rparr>"
proof -
  have a: "generate_key E91Protocol ideal_backend (draws [0, 0, 1]) 1 False (Some ''0'') 0
       = Some (Inr (\<lparr>alice_key = [0], bob_key = [1], protocol = ''E91'',
                      eavesdropping = False\<rparr>, 3))"
    by code_simp
  have b: "generate_key TeleportationQKD ideal_backend (draws [1, 0, 0]) 1 False None 0
       = Some (Inr (\<lparr>alice_key = [1], bob_key = [0], protocol = ''Teleportation QKD'',
                      eavesdropping = False\<rparr>, 3))"
    by code_simp
  have c: "calculate_security_metrics [0] [1] False
       = \<lparr>agreement_rate = 0, qber = 1, is_secure = False, security_level = ''Low''\<rparr>"
    by code_simp
  have d: "calculate_security_metrics [1] [0] False
       = \<lparr>agreement_rate = 0, qber = 1, is_secure = False, security_level = ''Low''\<rparr>"
    by code_simp
  from ideal_backend_contract a b c d show ?thesis by simp
qed

end
